theory Spec2Isabelle
  imports Main
begin

section \<open>The two documents\<close>

text \<open>
  The repository holds two files: the notebook \<^verbatim>\<open>docs_src/text.ipynb\<close> and its
  HTML export \<^verbatim>\<open>docs/text.html\<close>. Both are data, and both are transcribed here as
  they stand in the files, cell by cell.

  A notebook cell is a markdown cell (its \<^verbatim>\<open>source\<close> lines) or a code cell (the
  \<^verbatim>\<open>hide_input\<close> flag of its metadata, its \<^verbatim>\<open>outputs\<close> and its
  \<^verbatim>\<open>source\<close> lines). An output is a stream (its name and text lines) or an
  execute result (the \<^verbatim>\<open>text/html\<close> lines of its data, when present, and the
  \<^verbatim>\<open>text/plain\<close> lines). Every line keeps its final newline where the file has one.
\<close>

datatype nb_output =
    Stream string "string list"
  | ExecuteResult "string list option" "string list"

datatype nb_cell =
    Markdown "string list"
  | Code bool "nb_output list" "string list"

text \<open>
  The HTML page is a sequence of \<^verbatim>\<open>div class="cell ..."\<close> elements. A text cell is
  kept as the lines inside its \<^verbatim>\<open>text_cell_render\<close> element; a code cell as the lines
  inside the \<^verbatim>\<open>pre\<close> of its input area (absent when the cell has no input
  element) and its output areas. A line is kept as its sequence of lexical tokens: a tag
  \<^verbatim>\<open><...>\<close>, a character reference \<^verbatim>\<open>&...;\<close> or a run of text, so that
  writing the tokens one after the other gives the line of the file back. What the
  file holds around the cells (the front matter with title, keywords, sidebar and
  summary, and the enclosing container) belongs to no cell and is left out.
\<close>

datatype html_token = Tag string | Ref string | Txt string

type_synonym html_line = "html_token list"

datatype html_output =
    OutputStream "html_line list"
  | OutputText "html_line list"
  | OutputHtml "html_line list"

datatype html_cell =
    TextCell "html_line list"
  | CodeCell "html_line list option" "html_output list"

subsection \<open>The cells of \<^verbatim>\<open>docs_src/text.ipynb\<close>\<close>

definition nb_cell_00 :: nb_cell where
  "nb_cell_00 =
   Markdown
     [''# Text models, data, and training'']"

definition nb_cell_01 :: nb_cell where
  "nb_cell_01 =
   Code True
     []
     [''from fastai.gen_doc.nbdoc import *'']"

definition nb_cell_02 :: nb_cell where
  "nb_cell_02 =
   Markdown
     [''The [`text`](/text.html#text) module of the fastai library contains all the necessary functions to define a Dataset suitable for the various NLP (Natural Language Processing) tasks and quickly generate models you can use for them. Specifically:\<newline>'',
      ''- [`text.transform`](/text.transform.html#text.transform) contains all the scripts to preprocess your data, from raw text to token ids,\<newline>'',
      ''- [`text.data`](/text.data.html#text.data) contains the definition of [`TextDataset`](/text.data.html#TextDataset), which the main class you'll need in NLP,\<newline>'',
      ''- [`text.learner`](/text.learner.html#text.learner) contains helper functions to quickly create a language model or an RNN classifier.\<newline>'',
      ''\<newline>'',
      ''Have a look at the links above for full details of the API of each module, of read on for a quick overview.'']"

definition nb_cell_03 :: nb_cell where
  "nb_cell_03 =
   Markdown
     [''## Quick Start: Training an IMDb sentiment model with *ULMFiT*'']"

definition nb_cell_04 :: nb_cell where
  "nb_cell_04 =
   Markdown
     [''Let's start with a quick end-to-end example of training a model. We'll train a sentiment classifier on a sample of the popular IMDb data, showing 4 steps:\<newline>'',
      ''\<newline>'',
      ''1. Reading and viewing the IMDb data\<newline>'',
      ''1. Getting your data ready for modeling\<newline>'',
      ''1. Fine-tuning a language model\<newline>'',
      ''1. Building a classifier'']"

definition nb_cell_05 :: nb_cell where
  "nb_cell_05 =
   Markdown
     [''### Reading and viewing the IMDb data'']"

definition nb_cell_06 :: nb_cell where
  "nb_cell_06 =
   Markdown
     [''First let's import everything we need for text.'']"

definition nb_cell_07 :: nb_cell where
  "nb_cell_07 =
   Code False
     []
     [''from fastai import *\<newline>'',
      ''from fastai.text import * '']"

definition nb_cell_08 :: nb_cell where
  "nb_cell_08 =
   Markdown
     [''Contrary to images in Computer Vision, text can't directly be transformed into numbers to be fed into a model. The first thing we need to do is to preprocess our data so that we change the raw texts to lists of words, or tokens (a step that is called tokenization) then transform these tokens into numbers (a step that is called numericalization). These numbers are then passed to embedding layers that wil convert them in arrays of floats before passing them through a model.\<newline>'',
      ''\<newline>'',
      ''You can find on the web plenty of [Word Embeddings](https://en.wikipedia.org/wiki/Word_embedding) to directly convert your tokens into floats. Those word embeddings have generally be trained on a large corpus such as wikipedia. Following the work of [ULMFiT](https://arxiv.org/abs/1801.06146), the fastai library is more focused on using pre-trained Language Models and fine-tuning them. Word embeddings are just vectors of 300 or 400 floats that represent different words, but a pretrained language model not only has those, but has also been trained to get a representation of full sentences and documents.\<newline>'',
      ''\<newline>'',
      ''That's why the library is structured around three steps:\<newline>'',
      ''\<newline>'',
      ''1. Get your data preprocessed and ready to use in a minimum amount of code,\<newline>'',
      ''1. Create a language model with pretrained weights that you can fine-tune to your dataset,\<newline>'',
      ''1. Create other models such as classifiers on top of the encoder of the language model.\<newline>'',
      ''\<newline>'',
      ''To show examples, we have provided a small sample of the [IMDB dataset](https://www.imdb.com/interfaces/) which contains 1,000 reviews of movies with labels (positive or negative).'']"

definition nb_cell_09 :: nb_cell where
  "nb_cell_09 =
   Code False
     [ExecuteResult None
        [''PosixPath('/home/ubuntu/.fastai/data/imdb_sample')'']]
     [''path = untar_data(URLs.IMDB_SAMPLE)\<newline>'',
      ''path'']"

definition nb_cell_10 :: nb_cell where
  "nb_cell_10 =
   Markdown
     [''Creating a dataset from your raw texts is very simple if you have it in one of those ways\<newline>'',
      ''- organized it in folders in an ImageNet style\<newline>'',
      ''- organized in a csv file with labels columns and a text columns\<newline>'',
      ''\<newline>'',
      ''Here, the sample from imdb is in a train and valid csv files that looks like this:'']"

definition nb_cell_11 :: nb_cell where
  "nb_cell_11 =
   Code False
     [ExecuteResult (Some
        [''<div>\<newline>'',
         ''<style scoped>\<newline>'',
         ''    .dataframe tbody tr th:only-of-type {\<newline>'',
         ''        vertical-align: middle;\<newline>'',
         ''    }\<newline>'',
         ''\<newline>'',
         ''    .dataframe tbody tr th {\<newline>'',
         ''        vertical-align: top;\<newline>'',
         ''    }\<newline>'',
         ''\<newline>'',
         ''    .dataframe thead th {\<newline>'',
         ''        text-align: right;\<newline>'',
         ''    }\<newline>'',
         ''</style>\<newline>'',
         ''<table border=\"1\" class=\"dataframe\">\<newline>'',
         ''  <thead>\<newline>'',
         ''    <tr style=\"text-align: right;\">\<newline>'',
         ''      <th></th>\<newline>'',
         ''      <th>0</th>\<newline>'',
         ''      <th>1</th>\<newline>'',
         ''    </tr>\<newline>'',
         ''  </thead>\<newline>'',
         ''  <tbody>\<newline>'',
         ''    <tr>\<newline>'',
         ''      <th>0</th>\<newline>'',
         ''      <td>0</td>\<newline>'',
         ''      <td>Un-bleeping-believable! Meg Ryan doesn't even ...</td>\<newline>'',
         ''    </tr>\<newline>'',
         ''    <tr>\<newline>'',
         ''      <th>1</th>\<newline>'',
         ''      <td>1</td>\<newline>'',
         ''      <td>This is a extremely well-made film. The acting...</td>\<newline>'',
         ''    </tr>\<newline>'',
         ''    <tr>\<newline>'',
         ''      <th>2</th>\<newline>'',
         ''      <td>0</td>\<newline>'',
         ''      <td>Every once in a long while a movie will come a...</td>\<newline>'',
         ''    </tr>\<newline>'',
         ''    <tr>\<newline>'',
         ''      <th>3</th>\<newline>'',
         ''      <td>1</td>\<newline>'',
         ''      <td>Name just says it all. I watched this movie wi...</td>\<newline>'',
         ''    </tr>\<newline>'',
         ''    <tr>\<newline>'',
         ''      <th>4</th>\<newline>'',
         ''      <td>0</td>\<newline>'',
         ''      <td>This movie succeeds at being one of the most u...</td>\<newline>'',
         ''    </tr>\<newline>'',
         ''  </tbody>\<newline>'',
         ''</table>\<newline>'',
         ''</div>''])
        [''   0                                                  1\<newline>'',
         ''0  0  Un-bleeping-believable! Meg Ryan doesn't even ...\<newline>'',
         ''1  1  This is a extremely well-made film. The acting...\<newline>'',
         ''2  0  Every once in a long while a movie will come a...\<newline>'',
         ''3  1  Name just says it all. I watched this movie wi...\<newline>'',
         ''4  0  This movie succeeds at being one of the most u...'']]
     [''df = pd.read_csv(path/'train.csv', header=None)\<newline>'',
      ''df.head()'']"

definition nb_cell_12 :: nb_cell where
  "nb_cell_12 =
   Markdown
     [''Labels are encoded (though we can tell 1 seems to be positive from the bits of comments we see), and the file classes.txt contain the correspondence between index and names.'']"

definition nb_cell_13 :: nb_cell where
  "nb_cell_13 =
   Code False
     [ExecuteResult None
        [''('negative', 'positive')'']]
     [''classes = read_classes(path/'classes.txt')\<newline>'',
      ''classes[0], classes[1]'']"

definition nb_cell_14 :: nb_cell where
  "nb_cell_14 =
   Markdown
     [''### Getting your data ready for modeling'']"

definition nb_cell_15 :: nb_cell where
  "nb_cell_15 =
   Markdown
     [''To create a dataset, we can just use the [`TextDataset.from_df`](/text.data.html#TextDataset.from_df) method. It will automatically do the two step of preprocessing for us. There is more information about those two steps in [`text.transform`](/text.transform.html#text.transform) where you'll also find how to customize the tokenizer from the fastai defaults.'']"

definition nb_cell_16 :: nb_cell where
  "nb_cell_16 =
   Code True
     []
     [''for file in ['train_tok.npy', 'valid_tok.npy']:\<newline>'',
      ''    if os.path.exists(path/'tmp'/file): os.remove(path/'tmp'/file)'']"

definition nb_cell_17 :: nb_cell where
  "nb_cell_17 =
   Code False
     [Stream ''stdout''
        [''Numericalizing train.\<newline>'']]
     [''train_ds = TextDataset.from_df(path, df, classes=classes)'']"

definition nb_cell_18 :: nb_cell where
  "nb_cell_18 =
   Markdown
     [''Note that to avoid redoing this step (which can be quite time-consuming if you have a very large dataset), the fastai library has created a `tmp` directory in the folder given, to store the tokens (in `_tok.npy` files), the labels (in `_lbl.npy` files), the ids of the tokens (in `_id.npy` files) and the dictionary (`itos.pkl`). When you reexecute the line in the future, it will directly load that data.\<newline>'',
      ''\<newline>'',
      ''To get a [`DataBunch`](/basic_data.html#DataBunch) quickly, there are also several factory methods depending on how our data is structured. They are all detailed in [`text.data`](/text.data.html#text.data), here we'll use the method <code>from_csv</code> of the [`TextLMDataBunch`](/text.data.html#TextLMDataBunch) (to get the data ready for a language model) and [`TextClasDataBunch`](/text.data.html#TextClasDataBunch) (to get the data ready for a text classifier) classes.'']"

definition nb_cell_19 :: nb_cell where
  "nb_cell_19 =
   Code False
     [Stream ''stdout''
        [''Numericalizing valid.\<newline>'']]
     [''# Language model data\<newline>'',
      ''data_lm = TextLMDataBunch.from_csv(path)\<newline>'',
      ''# Classifier model data\<newline>'',
      ''data_clas = TextClasDataBunch.from_csv(path, vocab=data_lm.train_ds.vocab, bs=32)'']"

definition nb_cell_20 :: nb_cell where
  "nb_cell_20 =
   Markdown
     [''Note that [`TextDataset`](/text.data.html#TextDataset) was called behind the scenes for `train.csv` and `valid.csv` but, as explained earlier, it only preprocessed the validation set, since it had stored the result for the training set.  organize the data. `TextLMDataBunch.from_csv`, prepares the dataset for a language model, while `TextClasDataBunch.from_csv` prepares for a classifier (see the differences in [`text.data`](/text.data.html#text.data)).\<newline>'',
      ''\<newline>'',
      ''For the classifier, we also pass the vocabulary (mapping from ids to words) that we want to use: this is to ensure that `data_clas` will use the same dictionary as `data_lm`.'']"

definition nb_cell_21 :: nb_cell where
  "nb_cell_21 =
   Markdown
     [''### Fine-tuning a language model'']"

definition nb_cell_22 :: nb_cell where
  "nb_cell_22 =
   Markdown
     [''We can use the `data_lm` object we created earlier to fine-tune a pretrained language model. [fast.ai](http://www.fast.ai/) has an English model available that we can download. We can create a learner object that will directly create a model, download the pretrained weights and be ready for fine-tuning.'']"

definition nb_cell_23 :: nb_cell where
  "nb_cell_23 =
   Code False
     [Stream ''stdout''
        [''Total time: 00:18\<newline>'',
         ''epoch  train_loss  valid_loss  accuracy\<newline>'',
         ''1      4.725450    4.224330    0.245299  (00:18)\<newline>'',
         ''\<newline>'']]
     [''learn = RNNLearner.language_model(data_lm, pretrained_model=URLs.WT103, drop_mult=0.5)\<newline>'',
      ''learn.fit_one_cycle(1, 1e-2)'']"

definition nb_cell_24 :: nb_cell where
  "nb_cell_24 =
   Markdown
     [''Like a computer vision model, we can then unfreeze the model and fine-tune it.'']"

definition nb_cell_25 :: nb_cell where
  "nb_cell_25 =
   Code False
     [Stream ''stdout''
        [''Total time: 00:22\<newline>'',
         ''epoch  train_loss  valid_loss  accuracy\<newline>'',
         ''1      4.452540    4.139244    0.251466  (00:22)\<newline>'',
         ''\<newline>'']]
     [''learn.unfreeze()\<newline>'',
      ''learn.fit_one_cycle(1, 1e-3)'']"

definition nb_cell_26 :: nb_cell where
  "nb_cell_26 =
   Markdown
     [''And finally we save the encoder to be able to use it for classification in the next section.'']"

definition nb_cell_27 :: nb_cell where
  "nb_cell_27 =
   Code False
     []
     [''learn.save_encoder('ft_enc')'']"

definition nb_cell_28 :: nb_cell where
  "nb_cell_28 =
   Markdown
     [''### Building a classifier'']"

definition nb_cell_29 :: nb_cell where
  "nb_cell_29 =
   Markdown
     [''We now use the `data_clas` object we created earlier to build a classifier with our fine-tuned encoder. The learner object can be done in a single line.'']"

definition nb_cell_30 :: nb_cell where
  "nb_cell_30 =
   Code False
     [Stream ''stdout''
        [''Total time: 00:24\<newline>'',
         ''epoch  train_loss  valid_loss  accuracy\<newline>'',
         ''1      0.612591    0.585682    0.715000  (00:24)\<newline>'',
         ''\<newline>'']]
     [''learn = RNNLearner.classifier(data_clas, drop_mult=0.5)\<newline>'',
      ''learn.load_encoder('ft_enc')\<newline>'',
      ''learn.fit_one_cycle(1, 1e-2)'']"

definition nb_cell_31 :: nb_cell where
  "nb_cell_31 =
   Markdown
     [''Again, we can unfreeze the model and fine-tune it.'']"

definition nb_cell_32 :: nb_cell where
  "nb_cell_32 =
   Code False
     [Stream ''stdout''
        [''Total time: 00:28\<newline>'',
         ''epoch  train_loss  valid_loss  accuracy\<newline>'',
         ''1      0.545209    0.526416    0.705000  (00:28)\<newline>'',
         ''\<newline>'']]
     [''learn.freeze_to(-2)\<newline>'',
      ''learn.fit_one_cycle(1, slice(5e-3/2., 5e-3))'']"

definition nb_cell_33 :: nb_cell where
  "nb_cell_33 =
   Code False
     [Stream ''stdout''
        [''Total time: 00:54\<newline>'',
         ''epoch  train_loss  valid_loss  accuracy\<newline>'',
         ''1      0.448358    0.569745    0.740000  (00:54)\<newline>'',
         ''\<newline>'']]
     [''learn.unfreeze()\<newline>'',
      ''learn.fit_one_cycle(1, slice(2e-3/100, 2e-3))'']"

definition notebook :: "nb_cell list" where
  "notebook =
    [nb_cell_00, nb_cell_01, nb_cell_02, nb_cell_03,
     nb_cell_04, nb_cell_05, nb_cell_06, nb_cell_07,
     nb_cell_08, nb_cell_09, nb_cell_10, nb_cell_11,
     nb_cell_12, nb_cell_13, nb_cell_14, nb_cell_15,
     nb_cell_16, nb_cell_17, nb_cell_18, nb_cell_19,
     nb_cell_20, nb_cell_21, nb_cell_22, nb_cell_23,
     nb_cell_24, nb_cell_25, nb_cell_26, nb_cell_27,
     nb_cell_28, nb_cell_29, nb_cell_30, nb_cell_31,
     nb_cell_32, nb_cell_33]"

subsection \<open>The cells of \<^verbatim>\<open>docs/text.html\<close>\<close>

definition html_cell_00 :: html_cell where
  "html_cell_00 =
   TextCell
     [[Tag ''h1 id=\"Text-models,-data,-and-training\"'', Txt ''Text models, data, and training'',
       Tag ''a class=\"anchor-link\" href=\"#Text-models,-data,-and-training\"'', Ref ''#182'',
       Tag ''/a'', Tag ''/h1'']]"

definition html_cell_01 :: html_cell where
  "html_cell_01 =
   CodeCell
     None
     []"

definition html_cell_02 :: html_cell where
  "html_cell_02 =
   TextCell
     [[Tag ''p'', Txt ''The '', Tag ''a href=\"/text.html#text\"'', Tag ''code'', Txt ''text'',
       Tag ''/code'', Tag ''/a'',
       Txt '' module of the fastai library contains all the necessary functions to define a Dataset suitable for the various NLP (Natural Language Processing) tasks and quickly generate models you can use for them. Specifically:'',
       Tag ''/p'', Txt ''\<newline>''],
      [Tag ''ul'', Txt ''\<newline>''],
      [Tag ''li'', Tag ''a href=\"/text.transform.html#text.transform\"'', Tag ''code'',
       Txt ''text.transform'', Tag ''/code'', Tag ''/a'',
       Txt '' contains all the scripts to preprocess your data, from raw text to token ids,'',
       Tag ''/li'', Txt ''\<newline>''],
      [Tag ''li'', Tag ''a href=\"/text.data.html#text.data\"'', Tag ''code'', Txt ''text.data'',
       Tag ''/code'', Tag ''/a'', Txt '' contains the definition of '',
       Tag ''a href=\"/text.data.html#TextDataset\"'', Tag ''code'', Txt ''TextDataset'',
       Tag ''/code'', Tag ''/a'', Txt '', which the main class you'll need in NLP,'', Tag ''/li'',
       Txt ''\<newline>''],
      [Tag ''li'', Tag ''a href=\"/text.learner.html#text.learner\"'', Tag ''code'',
       Txt ''text.learner'', Tag ''/code'', Tag ''/a'',
       Txt '' contains helper functions to quickly create a language model or an RNN classifier.'',
       Tag ''/li'', Txt ''\<newline>''],
      [Tag ''/ul'', Txt ''\<newline>''],
      [Tag ''p'',
       Txt ''Have a look at the links above for full details of the API of each module, of read on for a quick overview.'',
       Tag ''/p'', Txt ''\<newline>'']]"

definition html_cell_03 :: html_cell where
  "html_cell_03 =
   TextCell
     [[Tag ''h2 id=\"Quick-Start:-Training-an-IMDb-sentiment-model-with-ULMFiT\"'',
       Txt ''Quick Start: Training an IMDb sentiment model with '', Tag ''em'', Txt ''ULMFiT'',
       Tag ''/em'',
       Tag ''a class=\"anchor-link\" href=\"#Quick-Start:-Training-an-IMDb-sentiment-model-with-ULMFiT\"'',
       Ref ''#182'', Tag ''/a'', Tag ''/h2'']]"

definition html_cell_04 :: html_cell where
  "html_cell_04 =
   TextCell
     [[Tag ''p'',
       Txt ''Let's start with a quick end-to-end example of training a model. We'll train a sentiment classifier on a sample of the popular IMDb data, showing 4 steps:'',
       Tag ''/p'', Txt ''\<newline>''],
      [Tag ''ol'', Txt ''\<newline>''],
      [Tag ''li'', Txt ''Reading and viewing the IMDb data'', Tag ''/li'', Txt ''\<newline>''],
      [Tag ''li'', Txt ''Getting your data ready for modeling'', Tag ''/li'', Txt ''\<newline>''],
      [Tag ''li'', Txt ''Fine-tuning a language model'', Tag ''/li'', Txt ''\<newline>''],
      [Tag ''li'', Txt ''Building a classifier'', Tag ''/li'', Txt ''\<newline>''],
      [Tag ''/ol'', Txt ''\<newline>'']]"

definition html_cell_05 :: html_cell where
  "html_cell_05 =
   TextCell
     [[Tag ''h3 id=\"Reading-and-viewing-the-IMDb-data\"'',
       Txt ''Reading and viewing the IMDb data'',
       Tag ''a class=\"anchor-link\" href=\"#Reading-and-viewing-the-IMDb-data\"'', Ref ''#182'',
       Tag ''/a'', Tag ''/h3'']]"

definition html_cell_06 :: html_cell where
  "html_cell_06 =
   TextCell
     [[Tag ''p'', Txt ''First let's import everything we need for text.'', Tag ''/p'',
       Txt ''\<newline>'']]"

definition html_cell_07 :: html_cell where
  "html_cell_07 =
   CodeCell
     (Some
      [[Tag ''span'', Tag ''/span'', Tag ''span class=\"kn\"'', Txt ''from'', Tag ''/span'',
        Txt '' '', Tag ''span class=\"nn\"'', Txt ''fastai'', Tag ''/span'', Txt '' '',
        Tag ''span class=\"k\"'', Txt ''import'', Tag ''/span'', Txt '' '',
        Tag ''span class=\"o\"'', Txt ''*'', Tag ''/span'', Txt ''\<newline>''],
       [Tag ''span class=\"kn\"'', Txt ''from'', Tag ''/span'', Txt '' '',
        Tag ''span class=\"nn\"'', Txt ''fastai.text'', Tag ''/span'', Txt '' '',
        Tag ''span class=\"k\"'', Txt ''import'', Tag ''/span'', Txt '' '',
        Tag ''span class=\"o\"'', Txt ''*'', Tag ''/span'', Txt '' \<newline>'']])
     []"

definition html_cell_08 :: html_cell where
  "html_cell_08 =
   TextCell
     [[Tag ''p'',
       Txt ''Contrary to images in Computer Vision, text can't directly be transformed into numbers to be fed into a model. The first thing we need to do is to preprocess our data so that we change the raw texts to lists of words, or tokens (a step that is called tokenization) then transform these tokens into numbers (a step that is called numericalization). These numbers are then passed to embedding layers that wil convert them in arrays of floats before passing them through a model.'',
       Tag ''/p'', Txt ''\<newline>''],
      [Tag ''p'', Txt ''You can find on the web plenty of '',
       Tag ''a href=\"https://en.wikipedia.org/wiki/Word_embedding\"'', Txt ''Word Embeddings'',
       Tag ''/a'',
       Txt '' to directly convert your tokens into floats. Those word embeddings have generally be trained on a large corpus such as wikipedia. Following the work of '',
       Tag ''a href=\"https://arxiv.org/abs/1801.06146\"'', Txt ''ULMFiT'', Tag ''/a'',
       Txt '', the fastai library is more focused on using pre-trained Language Models and fine-tuning them. Word embeddings are just vectors of 300 or 400 floats that represent different words, but a pretrained language model not only has those, but has also been trained to get a representation of full sentences and documents.'',
       Tag ''/p'', Txt ''\<newline>''],
      [Tag ''p'', Txt ''That's why the library is structured around three steps:'', Tag ''/p'',
       Txt ''\<newline>''],
      [Tag ''ol'', Txt ''\<newline>''],
      [Tag ''li'',
       Txt ''Get your data preprocessed and ready to use in a minimum amount of code,'',
       Tag ''/li'', Txt ''\<newline>''],
      [Tag ''li'',
       Txt ''Create a language model with pretrained weights that you can fine-tune to your dataset,'',
       Tag ''/li'', Txt ''\<newline>''],
      [Tag ''li'',
       Txt ''Create other models such as classifiers on top of the encoder of the language model.'',
       Tag ''/li'', Txt ''\<newline>''],
      [Tag ''/ol'', Txt ''\<newline>''],
      [Tag ''p'', Txt ''To show examples, we have provided a small sample of the '',
       Tag ''a href=\"https://www.imdb.com/interfaces/\"'', Txt ''IMDB dataset'', Tag ''/a'',
       Txt '' which contains 1,000 reviews of movies with labels (positive or negative).'',
       Tag ''/p'', Txt ''\<newline>'']]"

definition html_cell_09 :: html_cell where
  "html_cell_09 =
   CodeCell
     (Some
      [[Tag ''span'', Tag ''/span'', Tag ''span class=\"n\"'', Txt ''path'', Tag ''/span'',
        Txt '' '', Tag ''span class=\"o\"'', Txt ''='', Tag ''/span'', Txt '' '',
        Tag ''span class=\"n\"'', Txt ''untar_data'', Tag ''/span'', Tag ''span class=\"p\"'',
        Txt ''('', Tag ''/span'', Tag ''span class=\"n\"'', Txt ''URLs'', Tag ''/span'',
        Tag ''span class=\"o\"'', Txt ''.'', Tag ''/span'', Tag ''span class=\"n\"'',
        Txt ''IMDB_SAMPLE'', Tag ''/span'', Tag ''span class=\"p\"'', Txt '')'', Tag ''/span'',
        Txt ''\<newline>''],
       [Tag ''span class=\"n\"'', Txt ''path'', Tag ''/span'', Txt ''\<newline>'']])
     [OutputText
        [[Txt ''PosixPath('', Ref ''#39'', Txt ''/home/ubuntu/.fastai/data/imdb_sample'',
          Ref ''#39'', Txt '')'']]]"

definition html_cell_10 :: html_cell where
  "html_cell_10 =
   TextCell
     [[Tag ''p'',
       Txt ''Creating a dataset from your raw texts is very simple if you have it in one of those ways'',
       Tag ''/p'', Txt ''\<newline>''],
      [Tag ''ul'', Txt ''\<newline>''],
      [Tag ''li'', Txt ''organized it in folders in an ImageNet style'', Tag ''/li'',
       Txt ''\<newline>''],
      [Tag ''li'', Txt ''organized in a csv file with labels columns and a text columns'',
       Tag ''/li'', Txt ''\<newline>''],
      [Tag ''/ul'', Txt ''\<newline>''],
      [Tag ''p'',
       Txt ''Here, the sample from imdb is in a train and valid csv files that looks like this:'',
       Tag ''/p'', Txt ''\<newline>'']]"

definition html_cell_11 :: html_cell where
  "html_cell_11 =
   CodeCell
     (Some
      [[Tag ''span'', Tag ''/span'', Tag ''span class=\"n\"'', Txt ''df'', Tag ''/span'',
        Txt '' '', Tag ''span class=\"o\"'', Txt ''='', Tag ''/span'', Txt '' '',
        Tag ''span class=\"n\"'', Txt ''pd'', Tag ''/span'', Tag ''span class=\"o\"'', Txt ''.'',
        Tag ''/span'', Tag ''span class=\"n\"'', Txt ''read_csv'', Tag ''/span'',
        Tag ''span class=\"p\"'', Txt ''('', Tag ''/span'', Tag ''span class=\"n\"'', Txt ''path'',
        Tag ''/span'', Tag ''span class=\"o\"'', Txt ''/'', Tag ''/span'',
        Tag ''span class=\"s1\"'', Ref ''#39'', Txt ''train.csv'', Ref ''#39'', Tag ''/span'',
        Tag ''span class=\"p\"'', Txt '','', Tag ''/span'', Txt '' '', Tag ''span class=\"n\"'',
        Txt ''header'', Tag ''/span'', Tag ''span class=\"o\"'', Txt ''='', Tag ''/span'',
        Tag ''span class=\"kc\"'', Txt ''None'', Tag ''/span'', Tag ''span class=\"p\"'',
        Txt '')'', Tag ''/span'', Txt ''\<newline>''],
       [Tag ''span class=\"n\"'', Txt ''df'', Tag ''/span'', Tag ''span class=\"o\"'', Txt ''.'',
        Tag ''/span'', Tag ''span class=\"n\"'', Txt ''head'', Tag ''/span'',
        Tag ''span class=\"p\"'', Txt ''()'', Tag ''/span'', Txt ''\<newline>'']])
     [OutputHtml
        [[Tag ''div'', Txt ''\<newline>''],
         [Tag ''style scoped'', Txt ''\<newline>''],
         [Txt ''    .dataframe tbody tr th:only-of-type {\<newline>''],
         [Txt ''        vertical-align: middle;\<newline>''],
         [Txt ''    }\<newline>''],
         [Txt ''\<newline>''],
         [Txt ''    .dataframe tbody tr th {\<newline>''],
         [Txt ''        vertical-align: top;\<newline>''],
         [Txt ''    }\<newline>''],
         [Txt ''\<newline>''],
         [Txt ''    .dataframe thead th {\<newline>''],
         [Txt ''        text-align: right;\<newline>''],
         [Txt ''    }\<newline>''],
         [Tag ''/style'', Txt ''\<newline>''],
         [Tag ''table border=\"1\" class=\"dataframe\"'', Txt ''\<newline>''],
         [Txt ''  '', Tag ''thead'', Txt ''\<newline>''],
         [Txt ''    '', Tag ''tr style=\"text-align: right;\"'', Txt ''\<newline>''],
         [Txt ''      '', Tag ''th'', Tag ''/th'', Txt ''\<newline>''],
         [Txt ''      '', Tag ''th'', Txt ''0'', Tag ''/th'', Txt ''\<newline>''],
         [Txt ''      '', Tag ''th'', Txt ''1'', Tag ''/th'', Txt ''\<newline>''],
         [Txt ''    '', Tag ''/tr'', Txt ''\<newline>''],
         [Txt ''  '', Tag ''/thead'', Txt ''\<newline>''],
         [Txt ''  '', Tag ''tbody'', Txt ''\<newline>''],
         [Txt ''    '', Tag ''tr'', Txt ''\<newline>''],
         [Txt ''      '', Tag ''th'', Txt ''0'', Tag ''/th'', Txt ''\<newline>''],
         [Txt ''      '', Tag ''td'', Txt ''0'', Tag ''/td'', Txt ''\<newline>''],
         [Txt ''      '', Tag ''td'', Txt ''Un-bleeping-believable! Meg Ryan doesn't even ...'',
          Tag ''/td'', Txt ''\<newline>''],
         [Txt ''    '', Tag ''/tr'', Txt ''\<newline>''],
         [Txt ''    '', Tag ''tr'', Txt ''\<newline>''],
         [Txt ''      '', Tag ''th'', Txt ''1'', Tag ''/th'', Txt ''\<newline>''],
         [Txt ''      '', Tag ''td'', Txt ''1'', Tag ''/td'', Txt ''\<newline>''],
         [Txt ''      '', Tag ''td'', Txt ''This is a extremely well-made film. The acting...'',
          Tag ''/td'', Txt ''\<newline>''],
         [Txt ''    '', Tag ''/tr'', Txt ''\<newline>''],
         [Txt ''    '', Tag ''tr'', Txt ''\<newline>''],
         [Txt ''      '', Tag ''th'', Txt ''2'', Tag ''/th'', Txt ''\<newline>''],
         [Txt ''      '', Tag ''td'', Txt ''0'', Tag ''/td'', Txt ''\<newline>''],
         [Txt ''      '', Tag ''td'', Txt ''Every once in a long while a movie will come a...'',
          Tag ''/td'', Txt ''\<newline>''],
         [Txt ''    '', Tag ''/tr'', Txt ''\<newline>''],
         [Txt ''    '', Tag ''tr'', Txt ''\<newline>''],
         [Txt ''      '', Tag ''th'', Txt ''3'', Tag ''/th'', Txt ''\<newline>''],
         [Txt ''      '', Tag ''td'', Txt ''1'', Tag ''/td'', Txt ''\<newline>''],
         [Txt ''      '', Tag ''td'', Txt ''Name just says it all. I watched this movie wi...'',
          Tag ''/td'', Txt ''\<newline>''],
         [Txt ''    '', Tag ''/tr'', Txt ''\<newline>''],
         [Txt ''    '', Tag ''tr'', Txt ''\<newline>''],
         [Txt ''      '', Tag ''th'', Txt ''4'', Tag ''/th'', Txt ''\<newline>''],
         [Txt ''      '', Tag ''td'', Txt ''0'', Tag ''/td'', Txt ''\<newline>''],
         [Txt ''      '', Tag ''td'', Txt ''This movie succeeds at being one of the most u...'',
          Tag ''/td'', Txt ''\<newline>''],
         [Txt ''    '', Tag ''/tr'', Txt ''\<newline>''],
         [Txt ''  '', Tag ''/tbody'', Txt ''\<newline>''],
         [Tag ''/table'', Txt ''\<newline>''],
         [Tag ''/div'']]]"

definition html_cell_12 :: html_cell where
  "html_cell_12 =
   TextCell
     [[Tag ''p'',
       Txt ''Labels are encoded (though we can tell 1 seems to be positive from the bits of comments we see), and the file classes.txt contain the correspondence between index and names.'',
       Tag ''/p'', Txt ''\<newline>'']]"

definition html_cell_13 :: html_cell where
  "html_cell_13 =
   CodeCell
     (Some
      [[Tag ''span'', Tag ''/span'', Tag ''span class=\"n\"'', Txt ''classes'', Tag ''/span'',
        Txt '' '', Tag ''span class=\"o\"'', Txt ''='', Tag ''/span'', Txt '' '',
        Tag ''span class=\"n\"'', Txt ''read_classes'', Tag ''/span'', Tag ''span class=\"p\"'',
        Txt ''('', Tag ''/span'', Tag ''span class=\"n\"'', Txt ''path'', Tag ''/span'',
        Tag ''span class=\"o\"'', Txt ''/'', Tag ''/span'', Tag ''span class=\"s1\"'', Ref ''#39'',
        Txt ''classes.txt'', Ref ''#39'', Tag ''/span'', Tag ''span class=\"p\"'', Txt '')'',
        Tag ''/span'', Txt ''\<newline>''],
       [Tag ''span class=\"n\"'', Txt ''classes'', Tag ''/span'', Tag ''span class=\"p\"'',
        Txt ''['', Tag ''/span'', Tag ''span class=\"mi\"'', Txt ''0'', Tag ''/span'',
        Tag ''span class=\"p\"'', Txt ''],'', Tag ''/span'', Txt '' '', Tag ''span class=\"n\"'',
        Txt ''classes'', Tag ''/span'', Tag ''span class=\"p\"'', Txt ''['', Tag ''/span'',
        Tag ''span class=\"mi\"'', Txt ''1'', Tag ''/span'', Tag ''span class=\"p\"'', Txt '']'',
        Tag ''/span'', Txt ''\<newline>'']])
     [OutputText
        [[Txt ''('', Ref ''#39'', Txt ''negative'', Ref ''#39'', Txt '', '', Ref ''#39'',
          Txt ''positive'', Ref ''#39'', Txt '')'']]]"

definition html_cell_14 :: html_cell where
  "html_cell_14 =
   TextCell
     [[Tag ''h3 id=\"Getting-your-data-ready-for-modeling\"'',
       Txt ''Getting your data ready for modeling'',
       Tag ''a class=\"anchor-link\" href=\"#Getting-your-data-ready-for-modeling\"'',
       Ref ''#182'', Tag ''/a'', Tag ''/h3'']]"

definition html_cell_15 :: html_cell where
  "html_cell_15 =
   TextCell
     [[Tag ''p'', Txt ''To create a dataset, we can just use the '',
       Tag ''a href=\"/text.data.html#TextDataset.from_df\"'', Tag ''code'',
       Txt ''TextDataset.from_df'', Tag ''/code'', Tag ''/a'',
       Txt '' method. It will automatically do the two step of preprocessing for us. There is more information about those two steps in '',
       Tag ''a href=\"/text.transform.html#text.transform\"'', Tag ''code'',
       Txt ''text.transform'', Tag ''/code'', Tag ''/a'',
       Txt '' where you'll also find how to customize the tokenizer from the fastai defaults.'',
       Tag ''/p'', Txt ''\<newline>'']]"

definition html_cell_16 :: html_cell where
  "html_cell_16 =
   CodeCell
     None
     []"

definition html_cell_17 :: html_cell where
  "html_cell_17 =
   CodeCell
     (Some
      [[Tag ''span'', Tag ''/span'', Tag ''span class=\"n\"'', Txt ''train_ds'', Tag ''/span'',
        Txt '' '', Tag ''span class=\"o\"'', Txt ''='', Tag ''/span'', Txt '' '',
        Tag ''span class=\"n\"'', Txt ''TextDataset'', Tag ''/span'', Tag ''span class=\"o\"'',
        Txt ''.'', Tag ''/span'', Tag ''span class=\"n\"'', Txt ''from_df'', Tag ''/span'',
        Tag ''span class=\"p\"'', Txt ''('', Tag ''/span'', Tag ''span class=\"n\"'', Txt ''path'',
        Tag ''/span'', Tag ''span class=\"p\"'', Txt '','', Tag ''/span'', Txt '' '',
        Tag ''span class=\"n\"'', Txt ''df'', Tag ''/span'', Tag ''span class=\"p\"'', Txt '','',
        Tag ''/span'', Txt '' '', Tag ''span class=\"n\"'', Txt ''classes'', Tag ''/span'',
        Tag ''span class=\"o\"'', Txt ''='', Tag ''/span'', Tag ''span class=\"n\"'',
        Txt ''classes'', Tag ''/span'', Tag ''span class=\"p\"'', Txt '')'', Tag ''/span'',
        Txt ''\<newline>'']])
     [OutputStream
        [[Txt ''Numericalizing train.\<newline>'']]]"

definition html_cell_18 :: html_cell where
  "html_cell_18 =
   TextCell
     [[Tag ''p'',
       Txt ''Note that to avoid redoing this step (which can be quite time-consuming if you have a very large dataset), the fastai library has created a '',
       Tag ''code'', Txt ''tmp'', Tag ''/code'',
       Txt '' directory in the folder given, to store the tokens (in '', Tag ''code'',
       Txt ''_tok.npy'', Tag ''/code'', Txt '' files), the labels (in '', Tag ''code'',
       Txt ''_lbl.npy'', Tag ''/code'', Txt '' files), the ids of the tokens (in '', Tag ''code'',
       Txt ''_id.npy'', Tag ''/code'', Txt '' files) and the dictionary ('', Tag ''code'',
       Txt ''itos.pkl'', Tag ''/code'',
       Txt ''). When you reexecute the line in the future, it will directly load that data.'',
       Tag ''/p'', Txt ''\<newline>''],
      [Tag ''p'', Txt ''To get a '', Tag ''a href=\"/basic_data.html#DataBunch\"'', Tag ''code'',
       Txt ''DataBunch'', Tag ''/code'', Tag ''/a'',
       Txt '' quickly, there are also several factory methods depending on how our data is structured. They are all detailed in '',
       Tag ''a href=\"/text.data.html#text.data\"'', Tag ''code'', Txt ''text.data'',
       Tag ''/code'', Tag ''/a'', Txt '', here we'll use the method '', Tag ''code'',
       Txt ''from_csv'', Tag ''/code'', Txt '' of the '',
       Tag ''a href=\"/text.data.html#TextLMDataBunch\"'', Tag ''code'', Txt ''TextLMDataBunch'',
       Tag ''/code'', Tag ''/a'', Txt '' (to get the data ready for a language model) and '',
       Tag ''a href=\"/text.data.html#TextClasDataBunch\"'', Tag ''code'',
       Txt ''TextClasDataBunch'', Tag ''/code'', Tag ''/a'',
       Txt '' (to get the data ready for a text classifier) classes.'', Tag ''/p'',
       Txt ''\<newline>'']]"

definition html_cell_19 :: html_cell where
  "html_cell_19 =
   CodeCell
     (Some
      [[Tag ''span'', Tag ''/span'', Tag ''span class=\"c1\"'', Txt ''# Language model data'',
        Tag ''/span'', Txt ''\<newline>''],
       [Tag ''span class=\"n\"'', Txt ''data_lm'', Tag ''/span'', Txt '' '',
        Tag ''span class=\"o\"'', Txt ''='', Tag ''/span'', Txt '' '', Tag ''span class=\"n\"'',
        Txt ''TextLMDataBunch'', Tag ''/span'', Tag ''span class=\"o\"'', Txt ''.'', Tag ''/span'',
        Tag ''span class=\"n\"'', Txt ''from_csv'', Tag ''/span'', Tag ''span class=\"p\"'',
        Txt ''('', Tag ''/span'', Tag ''span class=\"n\"'', Txt ''path'', Tag ''/span'',
        Tag ''span class=\"p\"'', Txt '')'', Tag ''/span'', Txt ''\<newline>''],
       [Tag ''span class=\"c1\"'', Txt ''# Classifier model data'', Tag ''/span'',
        Txt ''\<newline>''],
       [Tag ''span class=\"n\"'', Txt ''data_clas'', Tag ''/span'', Txt '' '',
        Tag ''span class=\"o\"'', Txt ''='', Tag ''/span'', Txt '' '', Tag ''span class=\"n\"'',
        Txt ''TextClasDataBunch'', Tag ''/span'', Tag ''span class=\"o\"'', Txt ''.'',
        Tag ''/span'', Tag ''span class=\"n\"'', Txt ''from_csv'', Tag ''/span'',
        Tag ''span class=\"p\"'', Txt ''('', Tag ''/span'', Tag ''span class=\"n\"'', Txt ''path'',
        Tag ''/span'', Tag ''span class=\"p\"'', Txt '','', Tag ''/span'', Txt '' '',
        Tag ''span class=\"n\"'', Txt ''vocab'', Tag ''/span'', Tag ''span class=\"o\"'',
        Txt ''='', Tag ''/span'', Tag ''span class=\"n\"'', Txt ''data_lm'', Tag ''/span'',
        Tag ''span class=\"o\"'', Txt ''.'', Tag ''/span'', Tag ''span class=\"n\"'',
        Txt ''train_ds'', Tag ''/span'', Tag ''span class=\"o\"'', Txt ''.'', Tag ''/span'',
        Tag ''span class=\"n\"'', Txt ''vocab'', Tag ''/span'', Tag ''span class=\"p\"'',
        Txt '','', Tag ''/span'', Txt '' '', Tag ''span class=\"n\"'', Txt ''bs'', Tag ''/span'',
        Tag ''span class=\"o\"'', Txt ''='', Tag ''/span'', Tag ''span class=\"mi\"'', Txt ''32'',
        Tag ''/span'', Tag ''span class=\"p\"'', Txt '')'', Tag ''/span'', Txt ''\<newline>'']])
     [OutputStream
        [[Txt ''Numericalizing valid.\<newline>'']]]"

definition html_cell_20 :: html_cell where
  "html_cell_20 =
   TextCell
     [[Tag ''p'', Txt ''Note that '', Tag ''a href=\"/text.data.html#TextDataset\"'',
       Tag ''code'', Txt ''TextDataset'', Tag ''/code'', Tag ''/a'',
       Txt '' was called behind the scenes for '', Tag ''code'', Txt ''train.csv'', Tag ''/code'',
       Txt '' and '', Tag ''code'', Txt ''valid.csv'', Tag ''/code'',
       Txt '' but, as explained earlier, it only preprocessed the validation set, since it had stored the result for the training set.  organize the data. '',
       Tag ''code'', Txt ''TextLMDataBunch.from_csv'', Tag ''/code'',
       Txt '', prepares the dataset for a language model, while '', Tag ''code'',
       Txt ''TextClasDataBunch.from_csv'', Tag ''/code'',
       Txt '' prepares for a classifier (see the differences in '',
       Tag ''a href=\"/text.data.html#text.data\"'', Tag ''code'', Txt ''text.data'',
       Tag ''/code'', Tag ''/a'', Txt '').'', Tag ''/p'', Txt ''\<newline>''],
      [Tag ''p'',
       Txt ''For the classifier, we also pass the vocabulary (mapping from ids to words) that we want to use: this is to ensure that '',
       Tag ''code'', Txt ''data_clas'', Tag ''/code'', Txt '' will use the same dictionary as '',
       Tag ''code'', Txt ''data_lm'', Tag ''/code'', Txt ''.'', Tag ''/p'', Txt ''\<newline>'']]"

definition html_cell_21 :: html_cell where
  "html_cell_21 =
   TextCell
     [[Tag ''h3 id=\"Fine-tuning-a-language-model\"'', Txt ''Fine-tuning a language model'',
       Tag ''a class=\"anchor-link\" href=\"#Fine-tuning-a-language-model\"'', Ref ''#182'',
       Tag ''/a'', Tag ''/h3'']]"

definition html_cell_22 :: html_cell where
  "html_cell_22 =
   TextCell
     [[Tag ''p'', Txt ''We can use the '', Tag ''code'', Txt ''data_lm'', Tag ''/code'',
       Txt '' object we created earlier to fine-tune a pretrained language model. '',
       Tag ''a href=\"http://www.fast.ai/\"'', Txt ''fast.ai'', Tag ''/a'',
       Txt '' has an English model available that we can download. We can create a learner object that will directly create a model, download the pretrained weights and be ready for fine-tuning.'',
       Tag ''/p'', Txt ''\<newline>'']]"

definition html_cell_23 :: html_cell where
  "html_cell_23 =
   CodeCell
     (Some
      [[Tag ''span'', Tag ''/span'', Tag ''span class=\"n\"'', Txt ''learn'', Tag ''/span'',
        Txt '' '', Tag ''span class=\"o\"'', Txt ''='', Tag ''/span'', Txt '' '',
        Tag ''span class=\"n\"'', Txt ''RNNLearner'', Tag ''/span'', Tag ''span class=\"o\"'',
        Txt ''.'', Tag ''/span'', Tag ''span class=\"n\"'', Txt ''language_model'', Tag ''/span'',
        Tag ''span class=\"p\"'', Txt ''('', Tag ''/span'', Tag ''span class=\"n\"'',
        Txt ''data_lm'', Tag ''/span'', Tag ''span class=\"p\"'', Txt '','', Tag ''/span'',
        Txt '' '', Tag ''span class=\"n\"'', Txt ''pretrained_model'', Tag ''/span'',
        Tag ''span class=\"o\"'', Txt ''='', Tag ''/span'', Tag ''span class=\"n\"'', Txt ''URLs'',
        Tag ''/span'', Tag ''span class=\"o\"'', Txt ''.'', Tag ''/span'',
        Tag ''span class=\"n\"'', Txt ''WT103'', Tag ''/span'', Tag ''span class=\"p\"'',
        Txt '','', Tag ''/span'', Txt '' '', Tag ''span class=\"n\"'', Txt ''drop_mult'',
        Tag ''/span'', Tag ''span class=\"o\"'', Txt ''='', Tag ''/span'',
        Tag ''span class=\"mf\"'', Txt ''0.5'', Tag ''/span'', Tag ''span class=\"p\"'', Txt '')'',
        Tag ''/span'', Txt ''\<newline>''],
       [Tag ''span class=\"n\"'', Txt ''learn'', Tag ''/span'', Tag ''span class=\"o\"'',
        Txt ''.'', Tag ''/span'', Tag ''span class=\"n\"'', Txt ''fit_one_cycle'', Tag ''/span'',
        Tag ''span class=\"p\"'', Txt ''('', Tag ''/span'', Tag ''span class=\"mi\"'', Txt ''1'',
        Tag ''/span'', Tag ''span class=\"p\"'', Txt '','', Tag ''/span'', Txt '' '',
        Tag ''span class=\"mf\"'', Txt ''1e-2'', Tag ''/span'', Tag ''span class=\"p\"'',
        Txt '')'', Tag ''/span'', Txt ''\<newline>'']])
     [OutputStream
        [[Txt ''Total time: 00:18\<newline>''],
         [Txt ''epoch  train_loss  valid_loss  accuracy\<newline>''],
         [Txt ''1      4.725450    4.224330    0.245299  (00:18)\<newline>''],
         [Txt ''\<newline>'']]]"

definition html_cell_24 :: html_cell where
  "html_cell_24 =
   TextCell
     [[Tag ''p'',
       Txt ''Like a computer vision model, we can then unfreeze the model and fine-tune it.'',
       Tag ''/p'', Txt ''\<newline>'']]"

definition html_cell_25 :: html_cell where
  "html_cell_25 =
   CodeCell
     (Some
      [[Tag ''span'', Tag ''/span'', Tag ''span class=\"n\"'', Txt ''learn'', Tag ''/span'',
        Tag ''span class=\"o\"'', Txt ''.'', Tag ''/span'', Tag ''span class=\"n\"'',
        Txt ''unfreeze'', Tag ''/span'', Tag ''span class=\"p\"'', Txt ''()'', Tag ''/span'',
        Txt ''\<newline>''],
       [Tag ''span class=\"n\"'', Txt ''learn'', Tag ''/span'', Tag ''span class=\"o\"'',
        Txt ''.'', Tag ''/span'', Tag ''span class=\"n\"'', Txt ''fit_one_cycle'', Tag ''/span'',
        Tag ''span class=\"p\"'', Txt ''('', Tag ''/span'', Tag ''span class=\"mi\"'', Txt ''1'',
        Tag ''/span'', Tag ''span class=\"p\"'', Txt '','', Tag ''/span'', Txt '' '',
        Tag ''span class=\"mf\"'', Txt ''1e-3'', Tag ''/span'', Tag ''span class=\"p\"'',
        Txt '')'', Tag ''/span'', Txt ''\<newline>'']])
     [OutputStream
        [[Txt ''Total time: 00:22\<newline>''],
         [Txt ''epoch  train_loss  valid_loss  accuracy\<newline>''],
         [Txt ''1      4.452540    4.139244    0.251466  (00:22)\<newline>''],
         [Txt ''\<newline>'']]]"

definition html_cell_26 :: html_cell where
  "html_cell_26 =
   TextCell
     [[Tag ''p'',
       Txt ''And finally we save the encoder to be able to use it for classification in the next section.'',
       Tag ''/p'', Txt ''\<newline>'']]"

definition html_cell_27 :: html_cell where
  "html_cell_27 =
   CodeCell
     (Some
      [[Tag ''span'', Tag ''/span'', Tag ''span class=\"n\"'', Txt ''learn'', Tag ''/span'',
        Tag ''span class=\"o\"'', Txt ''.'', Tag ''/span'', Tag ''span class=\"n\"'',
        Txt ''save_encoder'', Tag ''/span'', Tag ''span class=\"p\"'', Txt ''('', Tag ''/span'',
        Tag ''span class=\"s1\"'', Ref ''#39'', Txt ''ft_enc'', Ref ''#39'', Tag ''/span'',
        Tag ''span class=\"p\"'', Txt '')'', Tag ''/span'', Txt ''\<newline>'']])
     []"

definition html_cell_28 :: html_cell where
  "html_cell_28 =
   TextCell
     [[Tag ''h3 id=\"Building-a-classifier\"'', Txt ''Building a classifier'',
       Tag ''a class=\"anchor-link\" href=\"#Building-a-classifier\"'', Ref ''#182'', Tag ''/a'',
       Tag ''/h3'']]"

definition html_cell_29 :: html_cell where
  "html_cell_29 =
   TextCell
     [[Tag ''p'', Txt ''We now use the '', Tag ''code'', Txt ''data_clas'', Tag ''/code'',
       Txt '' object we created earlier to build a classifier with our fine-tuned encoder. The learner object can be done in a single line.'',
       Tag ''/p'', Txt ''\<newline>'']]"

definition html_cell_30 :: html_cell where
  "html_cell_30 =
   CodeCell
     (Some
      [[Tag ''span'', Tag ''/span'', Tag ''span class=\"n\"'', Txt ''learn'', Tag ''/span'',
        Txt '' '', Tag ''span class=\"o\"'', Txt ''='', Tag ''/span'', Txt '' '',
        Tag ''span class=\"n\"'', Txt ''RNNLearner'', Tag ''/span'', Tag ''span class=\"o\"'',
        Txt ''.'', Tag ''/span'', Tag ''span class=\"n\"'', Txt ''classifier'', Tag ''/span'',
        Tag ''span class=\"p\"'', Txt ''('', Tag ''/span'', Tag ''span class=\"n\"'',
        Txt ''data_clas'', Tag ''/span'', Tag ''span class=\"p\"'', Txt '','', Tag ''/span'',
        Txt '' '', Tag ''span class=\"n\"'', Txt ''drop_mult'', Tag ''/span'',
        Tag ''span class=\"o\"'', Txt ''='', Tag ''/span'', Tag ''span class=\"mf\"'', Txt ''0.5'',
        Tag ''/span'', Tag ''span class=\"p\"'', Txt '')'', Tag ''/span'', Txt ''\<newline>''],
       [Tag ''span class=\"n\"'', Txt ''learn'', Tag ''/span'', Tag ''span class=\"o\"'',
        Txt ''.'', Tag ''/span'', Tag ''span class=\"n\"'', Txt ''load_encoder'', Tag ''/span'',
        Tag ''span class=\"p\"'', Txt ''('', Tag ''/span'', Tag ''span class=\"s1\"'', Ref ''#39'',
        Txt ''ft_enc'', Ref ''#39'', Tag ''/span'', Tag ''span class=\"p\"'', Txt '')'',
        Tag ''/span'', Txt ''\<newline>''],
       [Tag ''span class=\"n\"'', Txt ''learn'', Tag ''/span'', Tag ''span class=\"o\"'',
        Txt ''.'', Tag ''/span'', Tag ''span class=\"n\"'', Txt ''fit_one_cycle'', Tag ''/span'',
        Tag ''span class=\"p\"'', Txt ''('', Tag ''/span'', Tag ''span class=\"mi\"'', Txt ''1'',
        Tag ''/span'', Tag ''span class=\"p\"'', Txt '','', Tag ''/span'', Txt '' '',
        Tag ''span class=\"mf\"'', Txt ''1e-2'', Tag ''/span'', Tag ''span class=\"p\"'',
        Txt '')'', Tag ''/span'', Txt ''\<newline>'']])
     [OutputStream
        [[Txt ''Total time: 00:24\<newline>''],
         [Txt ''epoch  train_loss  valid_loss  accuracy\<newline>''],
         [Txt ''1      0.612591    0.585682    0.715000  (00:24)\<newline>''],
         [Txt ''\<newline>'']]]"

definition html_cell_31 :: html_cell where
  "html_cell_31 =
   TextCell
     [[Tag ''p'', Txt ''Again, we can unfreeze the model and fine-tune it.'', Tag ''/p'',
       Txt ''\<newline>'']]"

definition html_cell_32 :: html_cell where
  "html_cell_32 =
   CodeCell
     (Some
      [[Tag ''span'', Tag ''/span'', Tag ''span class=\"n\"'', Txt ''learn'', Tag ''/span'',
        Tag ''span class=\"o\"'', Txt ''.'', Tag ''/span'', Tag ''span class=\"n\"'',
        Txt ''freeze_to'', Tag ''/span'', Tag ''span class=\"p\"'', Txt ''('', Tag ''/span'',
        Tag ''span class=\"o\"'', Txt ''-'', Tag ''/span'', Tag ''span class=\"mi\"'', Txt ''2'',
        Tag ''/span'', Tag ''span class=\"p\"'', Txt '')'', Tag ''/span'', Txt ''\<newline>''],
       [Tag ''span class=\"n\"'', Txt ''learn'', Tag ''/span'', Tag ''span class=\"o\"'',
        Txt ''.'', Tag ''/span'', Tag ''span class=\"n\"'', Txt ''fit_one_cycle'', Tag ''/span'',
        Tag ''span class=\"p\"'', Txt ''('', Tag ''/span'', Tag ''span class=\"mi\"'', Txt ''1'',
        Tag ''/span'', Tag ''span class=\"p\"'', Txt '','', Tag ''/span'', Txt '' '',
        Tag ''span class=\"nb\"'', Txt ''slice'', Tag ''/span'', Tag ''span class=\"p\"'',
        Txt ''('', Tag ''/span'', Tag ''span class=\"mf\"'', Txt ''5e-3'', Tag ''/span'',
        Tag ''span class=\"o\"'', Txt ''/'', Tag ''/span'', Tag ''span class=\"mf\"'', Txt ''2.'',
        Tag ''/span'', Tag ''span class=\"p\"'', Txt '','', Tag ''/span'', Txt '' '',
        Tag ''span class=\"mf\"'', Txt ''5e-3'', Tag ''/span'', Tag ''span class=\"p\"'',
        Txt ''))'', Tag ''/span'', Txt ''\<newline>'']])
     [OutputStream
        [[Txt ''Total time: 00:28\<newline>''],
         [Txt ''epoch  train_loss  valid_loss  accuracy\<newline>''],
         [Txt ''1      0.545209    0.526416    0.705000  (00:28)\<newline>''],
         [Txt ''\<newline>'']]]"

definition html_cell_33 :: html_cell where
  "html_cell_33 =
   CodeCell
     (Some
      [[Tag ''span'', Tag ''/span'', Tag ''span class=\"n\"'', Txt ''learn'', Tag ''/span'',
        Tag ''span class=\"o\"'', Txt ''.'', Tag ''/span'', Tag ''span class=\"n\"'',
        Txt ''unfreeze'', Tag ''/span'', Tag ''span class=\"p\"'', Txt ''()'', Tag ''/span'',
        Txt ''\<newline>''],
       [Tag ''span class=\"n\"'', Txt ''learn'', Tag ''/span'', Tag ''span class=\"o\"'',
        Txt ''.'', Tag ''/span'', Tag ''span class=\"n\"'', Txt ''fit_one_cycle'', Tag ''/span'',
        Tag ''span class=\"p\"'', Txt ''('', Tag ''/span'', Tag ''span class=\"mi\"'', Txt ''1'',
        Tag ''/span'', Tag ''span class=\"p\"'', Txt '','', Tag ''/span'', Txt '' '',
        Tag ''span class=\"nb\"'', Txt ''slice'', Tag ''/span'', Tag ''span class=\"p\"'',
        Txt ''('', Tag ''/span'', Tag ''span class=\"mf\"'', Txt ''2e-3'', Tag ''/span'',
        Tag ''span class=\"o\"'', Txt ''/'', Tag ''/span'', Tag ''span class=\"mi\"'', Txt ''100'',
        Tag ''/span'', Tag ''span class=\"p\"'', Txt '','', Tag ''/span'', Txt '' '',
        Tag ''span class=\"mf\"'', Txt ''2e-3'', Tag ''/span'', Tag ''span class=\"p\"'',
        Txt ''))'', Tag ''/span'', Txt ''\<newline>'']])
     [OutputStream
        [[Txt ''Total time: 00:54\<newline>''],
         [Txt ''epoch  train_loss  valid_loss  accuracy\<newline>''],
         [Txt ''1      0.448358    0.569745    0.740000  (00:54)\<newline>''],
         [Txt ''\<newline>'']]]"

definition html_page :: "html_cell list" where
  "html_page =
    [html_cell_00, html_cell_01, html_cell_02, html_cell_03,
     html_cell_04, html_cell_05, html_cell_06, html_cell_07,
     html_cell_08, html_cell_09, html_cell_10, html_cell_11,
     html_cell_12, html_cell_13, html_cell_14, html_cell_15,
     html_cell_16, html_cell_17, html_cell_18, html_cell_19,
     html_cell_20, html_cell_21, html_cell_22, html_cell_23,
     html_cell_24, html_cell_25, html_cell_26, html_cell_27,
     html_cell_28, html_cell_29, html_cell_30, html_cell_31,
     html_cell_32, html_cell_33]"

section \<open>The code of the notebook\<close>

text \<open>
  The code cells hold Python. Their statements are transcribed as syntax trees named
  after the nodes of Python's \<^verbatim>\<open>ast\<close> module: \<^verbatim>\<open>Name\<close>,
  \<^verbatim>\<open>Attribute\<close>, \<^verbatim>\<open>Constant\<close> (here \<open>Str\<close>, \<open>Num\<close> with the
  literal as written, and \<open>NoneConst\<close>), \<^verbatim>\<open>List\<close>, \<^verbatim>\<open>Tuple\<close>,
  \<^verbatim>\<open>Subscript\<close>, \<^verbatim>\<open>UnaryOp(USub)\<close>, \<^verbatim>\<open>BinOp(Div)\<close>,
  \<^verbatim>\<open>Call(func, args, keywords)\<close> and \<^verbatim>\<open>keyword(arg, value)\<close>; and for
  statements \<^verbatim>\<open>ImportFrom\<close>, \<^verbatim>\<open>Assign\<close>, \<^verbatim>\<open>Expr\<close>,
  \<^verbatim>\<open>For\<close>, \<^verbatim>\<open>If\<close> (here \<open>IfStmt\<close>), \<^verbatim>\<open>FunctionDef\<close> and
  \<^verbatim>\<open>ClassDef\<close>. The last two are the statements with which Python code defines
  a function or a type of its own.
\<close>

datatype expr =
    Name string
  | Attribute expr string
  | Str string
  | Num string
  | NoneConst
  | ListExpr "expr list"
  | TupleExpr "expr list"
  | Subscript expr expr
  | USub expr
  | Div expr expr
  | Call expr "expr list" "keyword list"
and keyword = Keyword string expr

datatype stmt =
    ImportFrom string "string list"
  | Assign expr expr
  | Expr expr
  | For string expr "stmt list"
  | IfStmt expr "stmt list" "stmt list"
  | FunctionDef string "string list" "stmt list"
  | ClassDef string "stmt list"

text \<open>Shorthands for a dotted name \<^verbatim>\<open>a.b\<close> and for a call of a method of \<^verbatim>\<open>learn\<close>.\<close>

definition dotted :: "string \<Rightarrow> string \<Rightarrow> expr" where
  "dotted a b = Attribute (Name a) b"

definition learn_call :: "string \<Rightarrow> expr list \<Rightarrow> stmt" where
  "learn_call m args = Expr (Call (dotted ''learn'' m) args [])"

text \<open>
  One entry per code cell, in the order of the notebook (cells 1, 7, 9, 11, 13, 16, 17,
  19, 23, 25, 27, 30, 32 and 33). Comment lines are not statements and are left out.
\<close>

definition code_01 :: "stmt list" where
  "code_01 = [ImportFrom ''fastai.gen_doc.nbdoc'' [''*'']]"

definition code_07 :: "stmt list" where
  "code_07 = [ImportFrom ''fastai'' [''*''], ImportFrom ''fastai.text'' [''*'']]"

definition code_09 :: "stmt list" where
  "code_09 =
    [Assign (Name ''path'') (Call (Name ''untar_data'') [dotted ''URLs'' ''IMDB_SAMPLE''] []),
     Expr (Name ''path'')]"

definition code_11 :: "stmt list" where
  "code_11 =
    [Assign (Name ''df'')
       (Call (dotted ''pd'' ''read_csv'') [Div (Name ''path'') (Str ''train.csv'')]
          [Keyword ''header'' NoneConst]),
     Expr (Call (dotted ''df'' ''head'') [] [])]"

definition code_13 :: "stmt list" where
  "code_13 =
    [Assign (Name ''classes'')
       (Call (Name ''read_classes'') [Div (Name ''path'') (Str ''classes.txt'')] []),
     Expr (TupleExpr [Subscript (Name ''classes'') (Num ''0''),
                      Subscript (Name ''classes'') (Num ''1'')])]"

text \<open>The expression \<^verbatim>\<open>path/'tmp'/file\<close> of cell 16.\<close>

definition tmp_file :: expr where
  "tmp_file = Div (Div (Name ''path'') (Str ''tmp'')) (Name ''file'')"

definition code_16 :: "stmt list" where
  "code_16 =
    [For ''file'' (ListExpr [Str ''train_tok.npy'', Str ''valid_tok.npy''])
       [IfStmt (Call (Attribute (dotted ''os'' ''path'') ''exists'') [tmp_file] [])
          [Expr (Call (dotted ''os'' ''remove'') [tmp_file] [])]
          []]]"

definition code_17 :: "stmt list" where
  "code_17 =
    [Assign (Name ''train_ds'')
       (Call (dotted ''TextDataset'' ''from_df'') [Name ''path'', Name ''df'']
          [Keyword ''classes'' (Name ''classes'')])]"

definition code_19 :: "stmt list" where
  "code_19 =
    [Assign (Name ''data_lm'') (Call (dotted ''TextLMDataBunch'' ''from_csv'') [Name ''path''] []),
     Assign (Name ''data_clas'')
       (Call (dotted ''TextClasDataBunch'' ''from_csv'') [Name ''path'']
          [Keyword ''vocab'' (Attribute (dotted ''data_lm'' ''train_ds'') ''vocab''),
           Keyword ''bs'' (Num ''32'')])]"

definition code_23 :: "stmt list" where
  "code_23 =
    [Assign (Name ''learn'')
       (Call (dotted ''RNNLearner'' ''language_model'') [Name ''data_lm'']
          [Keyword ''pretrained_model'' (dotted ''URLs'' ''WT103''),
           Keyword ''drop_mult'' (Num ''0.5'')]),
     learn_call ''fit_one_cycle'' [Num ''1'', Num ''1e-2'']]"

definition code_25 :: "stmt list" where
  "code_25 =
    [learn_call ''unfreeze'' [],
     learn_call ''fit_one_cycle'' [Num ''1'', Num ''1e-3'']]"

definition code_27 :: "stmt list" where
  "code_27 = [learn_call ''save_encoder'' [Str ''ft_enc'']]"

definition code_30 :: "stmt list" where
  "code_30 =
    [Assign (Name ''learn'')
       (Call (dotted ''RNNLearner'' ''classifier'') [Name ''data_clas'']
          [Keyword ''drop_mult'' (Num ''0.5'')]),
     learn_call ''load_encoder'' [Str ''ft_enc''],
     learn_call ''fit_one_cycle'' [Num ''1'', Num ''1e-2'']]"

definition code_32 :: "stmt list" where
  "code_32 =
    [learn_call ''freeze_to'' [USub (Num ''2'')],
     learn_call ''fit_one_cycle''
       [Num ''1'', Call (Name ''slice'') [Div (Num ''5e-3'') (Num ''2.''), Num ''5e-3''] []]]"

definition code_33 :: "stmt list" where
  "code_33 =
    [learn_call ''unfreeze'' [],
     learn_call ''fit_one_cycle''
       [Num ''1'', Call (Name ''slice'') [Div (Num ''2e-3'') (Num ''100''), Num ''2e-3''] []]]"

definition session :: "stmt list list" where
  "session =
    [code_01, code_07, code_09, code_11, code_13, code_16, code_17,
     code_19, code_23, code_25, code_27, code_30, code_32, code_33]"

subsection \<open>Writing the syntax trees back as source text\<close>

fun unparse :: "expr \<Rightarrow> string"
  and unparse_list :: "expr list \<Rightarrow> string"
  and unparse_keyword :: "keyword \<Rightarrow> string"
  and unparse_keywords :: "keyword list \<Rightarrow> string" where
  "unparse (Name x) = x"
| "unparse (Attribute e a) = unparse e @ ''.'' @ a"
| "unparse (Str s) = [CHR 0x27] @ s @ [CHR 0x27]"
| "unparse (Num n) = n"
| "unparse NoneConst = ''None''"
| "unparse (ListExpr es) = ''['' @ unparse_list es @ '']''"
| "unparse (TupleExpr es) = unparse_list es"
| "unparse (Subscript e i) = unparse e @ ''['' @ unparse i @ '']''"
| "unparse (USub e) = ''-'' @ unparse e"
| "unparse (Div l r) = unparse l @ ''/'' @ unparse r"
| "unparse (Call f es ks) =
     unparse f @ ''('' @ unparse_list es
       @ (if es = [] \<or> ks = [] then [] else '', '') @ unparse_keywords ks @ '')''"
| "unparse_list [] = []"
| "unparse_list [e] = unparse e"
| "unparse_list (e # e' # es) = unparse e @ '', '' @ unparse_list (e' # es)"
| "unparse_keyword (Keyword k v) = k @ ''='' @ unparse v"
| "unparse_keywords [] = []"
| "unparse_keywords [k] = unparse_keyword k"
| "unparse_keywords (k # k' # ks) = unparse_keyword k @ '', '' @ unparse_keywords (k' # ks)"

fun join_with :: "string \<Rightarrow> string list \<Rightarrow> string" where
  "join_with sep [] = []"
| "join_with sep [x] = x"
| "join_with sep (x # y # xs) = x @ sep @ join_with sep (y # xs)"

fun unparse_stmt :: "stmt \<Rightarrow> string list"
  and unparse_body :: "stmt list \<Rightarrow> string list" where
  "unparse_stmt (ImportFrom m ns) = [''from '' @ m @ '' import '' @ join_with '', '' ns]"
| "unparse_stmt (Assign t v) = [unparse t @ '' = '' @ unparse v]"
| "unparse_stmt (Expr e) = [unparse e]"
| "unparse_stmt (For x it body) =
     (''for '' @ x @ '' in '' @ unparse it @ '':'') # map (\<lambda>l. ''    '' @ l) (unparse_body body)"
| "unparse_stmt (IfStmt c body orelse) =
     (''if '' @ unparse c @ '':'') # map (\<lambda>l. ''    '' @ l) (unparse_body body)
       @ (if orelse = [] then [] else ''else:'' # map (\<lambda>l. ''    '' @ l) (unparse_body orelse))"
| "unparse_stmt (FunctionDef f ps body) =
     (''def '' @ f @ ''('' @ join_with '', '' ps @ ''):'') # map (\<lambda>l. ''    '' @ l) (unparse_body body)"
| "unparse_stmt (ClassDef c body) =
     (''class '' @ c @ '':'') # map (\<lambda>l. ''    '' @ l) (unparse_body body)"
| "unparse_body [] = []"
| "unparse_body (s # ss) = unparse_stmt s @ unparse_body ss"

text \<open>
  The notebook's layout differs from this one in white space only (a trailing blank, a
  one-line \<^verbatim>\<open>if\<close>), so the two are compared with blanks and newlines removed.
  Comment lines of a cell's source are dropped first.
\<close>

definition is_blank :: "char \<Rightarrow> bool" where
  "is_blank c = (c = CHR '' '' \<or> c = CHR 0x0A)"

definition squash :: "string list \<Rightarrow> string" where
  "squash ls = filter (\<lambda>c. \<not> is_blank c) (concat ls)"

fun starts_with :: "string \<Rightarrow> string \<Rightarrow> bool" where
  "starts_with [] s = True"
| "starts_with (p # ps) [] = False"
| "starts_with (p # ps) (c # cs) = (p = c \<and> starts_with ps cs)"

definition code_lines :: "string list \<Rightarrow> string list" where
  "code_lines src = filter (\<lambda>l. \<not> starts_with ''#'' l) src"

fun is_code :: "nb_cell \<Rightarrow> bool" where
  "is_code (Code h os src) = True"
| "is_code (Markdown src) = False"

fun cell_source :: "nb_cell \<Rightarrow> string list" where
  "cell_source (Code h os src) = src"
| "cell_source (Markdown src) = src"

fun cell_outputs :: "nb_cell \<Rightarrow> nb_output list" where
  "cell_outputs (Code h os src) = os"
| "cell_outputs (Markdown src) = []"

fun hide_input :: "nb_cell \<Rightarrow> bool" where
  "hide_input (Code h os src) = h"
| "hide_input (Markdown src) = False"

definition code_cells :: "nb_cell list" where
  "code_cells = filter is_code notebook"

definition transcribes :: "stmt list \<Rightarrow> nb_cell \<Rightarrow> bool" where
  "transcribes ss c = (squash (unparse_body ss) = squash (code_lines (cell_source c)))"


subsection \<open>Calls, names and statement forms\<close>

text \<open>
  The call expressions of an expression, in the order Python evaluates them: the callee,
  then the arguments from left to right, then the call itself. For a statement with a
  body these are its call sites, in the order of the text.
\<close>

fun calls :: "expr \<Rightarrow> expr list"
  and calls_list :: "expr list \<Rightarrow> expr list"
  and calls_keyword :: "keyword \<Rightarrow> expr list"
  and calls_keywords :: "keyword list \<Rightarrow> expr list" where
  "calls (Name x) = []"
| "calls (Attribute e a) = calls e"
| "calls (Str s) = []"
| "calls (Num n) = []"
| "calls NoneConst = []"
| "calls (ListExpr es) = calls_list es"
| "calls (TupleExpr es) = calls_list es"
| "calls (Subscript e i) = calls e @ calls i"
| "calls (USub e) = calls e"
| "calls (Div l r) = calls l @ calls r"
| "calls (Call f es ks) = calls f @ calls_list es @ calls_keywords ks @ [Call f es ks]"
| "calls_list [] = []"
| "calls_list (e # es) = calls e @ calls_list es"
| "calls_keyword (Keyword k v) = calls v"
| "calls_keywords [] = []"
| "calls_keywords (k # ks) = calls_keyword k @ calls_keywords ks"

fun stmt_calls :: "stmt \<Rightarrow> expr list"
  and body_calls :: "stmt list \<Rightarrow> expr list" where
  "stmt_calls (ImportFrom m ns) = []"
| "stmt_calls (Assign t v) = calls v @ calls t"
| "stmt_calls (Expr e) = calls e"
| "stmt_calls (For x it body) = calls it @ body_calls body"
| "stmt_calls (IfStmt c body orelse) = calls c @ body_calls body @ body_calls orelse"
| "stmt_calls (FunctionDef f ps body) = body_calls body"
| "stmt_calls (ClassDef c body) = body_calls body"
| "body_calls [] = []"
| "body_calls (s # ss) = stmt_calls s @ body_calls ss"

text \<open>The dotted name a call is made on, as the source writes it.\<close>

fun callee :: "expr \<Rightarrow> string" where
  "callee (Call f es ks) = unparse f"
| "callee e = []"

definition session_calls :: "expr list" where
  "session_calls = concat (map body_calls session)"

definition session_callees :: "string list" where
  "session_callees = remdups (map callee session_calls)"

text \<open>The name an expression starts from: \<^verbatim>\<open>os\<close> for \<^verbatim>\<open>os.path.exists\<close>.\<close>

fun root_name :: "expr \<Rightarrow> string" where
  "root_name (Name x) = x"
| "root_name (Attribute e a) = root_name e"
| "root_name (Subscript e i) = root_name e"
| "root_name (Call f es ks) = root_name f"
| "root_name e = []"

text \<open>
  Modelled from the spec: the export lists of the modules the notebook imports with
  \<^verbatim>\<open>import *\<close> are not part of the files, so the library behind a name cannot be
  read off them. The table follows the spec's attribution ("fastai, pandas, os"):
  \<^verbatim>\<open>pd\<close> is pandas and \<^verbatim>\<open>df\<close> the data frame \<^verbatim>\<open>pd.read_csv\<close> returned,
  \<^verbatim>\<open>os\<close> is the module of that name, \<^verbatim>\<open>learn\<close> is the learner an
  \<^verbatim>\<open>RNNLearner\<close> constructor returned, and the other names are fastai's.
\<close>

definition library_of :: "string \<Rightarrow> string option" where
  "library_of x =
     (if x \<in> set [''pd'', ''df''] then Some ''pandas''
      else if x = ''os'' then Some ''os''
      else if x \<in> set [''untar_data'', ''read_classes'', ''TextDataset'', ''TextLMDataBunch'',
                        ''TextClasDataBunch'', ''RNNLearner'', ''learn'']
        then Some ''fastai''
      else None)"

fun is_library_call :: "expr \<Rightarrow> bool" where
  "is_library_call (Call f es ks) = (library_of (root_name f) \<noteq> None)"
| "is_library_call e = False"

text \<open>
  The claim's reading of a statement: an import, or a statement whose value is a call
  into one of the libraries.
\<close>

fun import_or_library_call :: "stmt \<Rightarrow> bool" where
  "import_or_library_call (ImportFrom m ns) = True"
| "import_or_library_call (Assign t v) = is_library_call v"
| "import_or_library_call (Expr e) = is_library_call e"
| "import_or_library_call s = False"

text \<open>
  What the statements of the notebook are: an import; an assignment of a library call's
  result to a name; an expression statement that is a library call or makes no call at
  all (it shows values already bound); a \<^verbatim>\<open>for\<close> over a list with no call in it and
  an \<^verbatim>\<open>if\<close> on a library call, with bodies of such statements. A definition of a
  function or class is none of these.
\<close>

fun is_name :: "expr \<Rightarrow> bool" where
  "is_name (Name x) = True"
| "is_name e = False"

fun library_glue :: "stmt \<Rightarrow> bool"
  and library_glue_body :: "stmt list \<Rightarrow> bool" where
  "library_glue (ImportFrom m ns) = True"
| "library_glue (Assign t v) = (is_name t \<and> is_library_call v)"
| "library_glue (Expr e) = (is_library_call e \<or> calls e = [])"
| "library_glue (For x it body) = (calls it = [] \<and> library_glue_body body)"
| "library_glue (IfStmt c body orelse) =
     (is_library_call c \<and> library_glue_body body \<and> library_glue_body orelse)"
| "library_glue (FunctionDef f ps body) = False"
| "library_glue (ClassDef c body) = False"
| "library_glue_body [] = True"
| "library_glue_body (s # ss) = (library_glue s \<and> library_glue_body ss)"

fun has_def :: "stmt \<Rightarrow> bool"
  and has_def_body :: "stmt list \<Rightarrow> bool" where
  "has_def (ImportFrom m ns) = False"
| "has_def (Assign t v) = False"
| "has_def (Expr e) = False"
| "has_def (For x it body) = has_def_body body"
| "has_def (IfStmt c body orelse) = (has_def_body body \<or> has_def_body orelse)"
| "has_def (FunctionDef f ps body) = True"
| "has_def (ClassDef c body) = True"
| "has_def_body [] = False"
| "has_def_body (s # ss) = (has_def s \<or> has_def_body ss)"

subsection \<open>The five groups of calls the spec names\<close>

text \<open>
  The spec's words: "dataset download helper, CSV loading, class-list loading,
  dataset/data-bunch factory methods, and a learner object's
  fit/freeze/unfreeze/encoder-persistence methods". \<open>spec_group\<close> gives the group of a
  callee, and \<open>None\<close> for a callee in none of them.
\<close>

datatype call_group =
  DownloadHelper | CsvLoading | ClassListLoading | DataFactory | LearnerMethod

definition spec_group :: "string \<Rightarrow> call_group option" where
  "spec_group f =
     (if f = ''untar_data'' then Some DownloadHelper
      else if f = ''pd.read_csv'' then Some CsvLoading
      else if f = ''read_classes'' then Some ClassListLoading
      else if f \<in> set [''TextDataset.from_df'', ''TextLMDataBunch.from_csv'',
                        ''TextClasDataBunch.from_csv'']
        then Some DataFactory
      else if f \<in> set [''learn.fit_one_cycle'', ''learn.freeze_to'', ''learn.unfreeze'',
                        ''learn.save_encoder'', ''learn.load_encoder'']
        then Some LearnerMethod
      else None)"

definition in_spec_groups :: "string \<Rightarrow> bool" where
  "in_spec_groups f = (spec_group f \<noteq> None)"

subsection \<open>The calls on learners\<close>




subsection \<open>Captured outputs and training\<close>






section \<open>The cache-deletion loop of cell 16\<close>

text \<open>
  \<^verbatim>\<open>
  for file in ['train_tok.npy', 'valid_tok.npy']:
      if os.path.exists(path/'tmp'/file): os.remove(path/'tmp'/file)
  \<close>
  The loop works on the file system through two functions of Python's \<^verbatim>\<open>os\<close>
  module. A file system maps a path (its components) to what is there, a regular file
  or a directory, when something is there. \<^verbatim>\<open>os.path.exists\<close> holds for any path
  that names something and never raises. \<^verbatim>\<open>os.remove\<close> deletes a regular file; it
  raises \<^verbatim>\<open>FileNotFoundError\<close> for a path that names nothing and
  \<^verbatim>\<open>IsADirectoryError\<close> for a directory. An exception ends the loop and leaves the
  file system as it was at that moment, so a run returns the exception, if any, with
  the file system it leaves.
\<close>

type_synonym fpath = "string list"

datatype node = RegularFile | Directory

type_synonym filesystem = "fpath \<Rightarrow> node option"

datatype os_error = FileNotFoundError fpath | IsADirectoryError fpath

definition path_div :: "fpath \<Rightarrow> string \<Rightarrow> fpath" where
  "path_div p name = p @ [name]"

definition os_path_exists :: "filesystem \<Rightarrow> fpath \<Rightarrow> bool" where
  "os_path_exists fs p = (fs p \<noteq> None)"

definition os_remove :: "filesystem \<Rightarrow> fpath \<Rightarrow> os_error + filesystem" where
  "os_remove fs p =
     (case fs p of
        None \<Rightarrow> Inl (FileNotFoundError p)
      | Some Directory \<Rightarrow> Inl (IsADirectoryError p)
      | Some RegularFile \<Rightarrow> Inr (fs(p := None)))"

fun remove_if_exists :: "fpath \<Rightarrow> string list \<Rightarrow> filesystem \<Rightarrow> os_error option \<times> filesystem" where
  "remove_if_exists path [] fs = (None, fs)"
| "remove_if_exists path (file # files) fs =
     (if os_path_exists fs (path_div (path_div path ''tmp'') file) then
        (case os_remove fs (path_div (path_div path ''tmp'') file) of
           Inl e \<Rightarrow> (Some e, fs)
         | Inr fs' \<Rightarrow> remove_if_exists path files fs')
      else remove_if_exists path files fs)"

definition cell_16 :: "fpath \<Rightarrow> filesystem \<Rightarrow> os_error option \<times> filesystem" where
  "cell_16 path fs = remove_if_exists path [''train_tok.npy'', ''valid_tok.npy''] fs"

definition train_tok :: "fpath \<Rightarrow> fpath" where
  "train_tok path = path_div (path_div path ''tmp'') ''train_tok.npy''"

definition valid_tok :: "fpath \<Rightarrow> fpath" where
  "valid_tok path = path_div (path_div path ''tmp'') ''valid_tok.npy''"

text \<open>The directory the notebook's \<^verbatim>\<open>path\<close> shows in the output of cell 9.\<close>

definition imdb_sample :: fpath where
  "imdb_sample = [''home'', ''ubuntu'', ''.fastai'', ''data'', ''imdb_sample'']"


section \<open>Running the statements\<close>

text \<open>
  What the notebook's statements do when they run is Python's evaluation order over
  operations that belong to the libraries: every attribute access, call, division and
  subscript is dispatched to the objects involved. The interpreter below fixes the
  order and the handling of names, and takes the operations as a parameter, the
  \<open>runtime\<close>: a value for each literal, the builtin names, the operations on values
  (each may read and change the state of the world outside the notebook's names: the
  file system, the objects, the random generators), the truth value of a condition,
  the items of an iterable and the names a star import binds. \<open>None\<close> is an exception:
  of an operation, or \<^verbatim>\<open>NameError\<close> for a name that is not bound.
\<close>

datatype op =
  GetAttr string | GetItem | Neg | TrueDiv | BuildList | BuildTuple | CallFn "string list"

record ('v, 'w) runtime =
  literal :: "expr \<Rightarrow> 'v"
  builtin :: "string \<Rightarrow> 'v option"
  apply_op :: "op \<Rightarrow> 'v list \<Rightarrow> 'w \<Rightarrow> ('v \<times> 'w) option"
  truth :: "'v \<Rightarrow> 'w \<Rightarrow> (bool \<times> 'w) option"
  items :: "'v \<Rightarrow> 'w \<Rightarrow> ('v list \<times> 'w) option"
  import_star :: "string \<Rightarrow> 'w \<Rightarrow> ((string \<Rightarrow> 'v option) \<times> 'w) option"

type_synonym 'v env = "string \<Rightarrow> 'v option"

fun keyword_name :: "keyword \<Rightarrow> string" where
  "keyword_name (Keyword k v) = k"

fun eval :: "('v, 'w) runtime \<Rightarrow> 'v env \<Rightarrow> expr \<Rightarrow> 'w \<Rightarrow> ('v \<times> 'w) option"
  and eval_list :: "('v, 'w) runtime \<Rightarrow> 'v env \<Rightarrow> expr list \<Rightarrow> 'w \<Rightarrow> ('v list \<times> 'w) option"
  and eval_keyword :: "('v, 'w) runtime \<Rightarrow> 'v env \<Rightarrow> keyword \<Rightarrow> 'w \<Rightarrow> ('v \<times> 'w) option"
  and eval_keywords :: "('v, 'w) runtime \<Rightarrow> 'v env \<Rightarrow> keyword list \<Rightarrow> 'w \<Rightarrow> ('v list \<times> 'w) option"
  where
  "eval rt env (Name x) w =
     (case env x of
        Some v \<Rightarrow> Some (v, w)
      | None \<Rightarrow> (case builtin rt x of Some v \<Rightarrow> Some (v, w) | None \<Rightarrow> None))"
| "eval rt env (Attribute e a) w =
     (case eval rt env e w of
        None \<Rightarrow> None
      | Some (v, w1) \<Rightarrow> apply_op rt (GetAttr a) [v] w1)"
| "eval rt env (Str s) w = Some (literal rt (Str s), w)"
| "eval rt env (Num n) w = Some (literal rt (Num n), w)"
| "eval rt env NoneConst w = Some (literal rt NoneConst, w)"
| "eval rt env (ListExpr es) w =
     (case eval_list rt env es w of
        None \<Rightarrow> None
      | Some (vs, w1) \<Rightarrow> apply_op rt BuildList vs w1)"
| "eval rt env (TupleExpr es) w =
     (case eval_list rt env es w of
        None \<Rightarrow> None
      | Some (vs, w1) \<Rightarrow> apply_op rt BuildTuple vs w1)"
| "eval rt env (Subscript e i) w =
     (case eval rt env e w of
        None \<Rightarrow> None
      | Some (v, w1) \<Rightarrow>
          (case eval rt env i w1 of
             None \<Rightarrow> None
           | Some (iv, w2) \<Rightarrow> apply_op rt GetItem [v, iv] w2))"
| "eval rt env (USub e) w =
     (case eval rt env e w of
        None \<Rightarrow> None
      | Some (v, w1) \<Rightarrow> apply_op rt Neg [v] w1)"
| "eval rt env (Div l r) w =
     (case eval rt env l w of
        None \<Rightarrow> None
      | Some (lv, w1) \<Rightarrow>
          (case eval rt env r w1 of
             None \<Rightarrow> None
           | Some (rv, w2) \<Rightarrow> apply_op rt TrueDiv [lv, rv] w2))"
| "eval rt env (Call f es ks) w =
     (case eval rt env f w of
        None \<Rightarrow> None
      | Some (fv, w1) \<Rightarrow>
          (case eval_list rt env es w1 of
             None \<Rightarrow> None
           | Some (vs, w2) \<Rightarrow>
               (case eval_keywords rt env ks w2 of
                  None \<Rightarrow> None
                | Some (kvs, w3) \<Rightarrow>
                    apply_op rt (CallFn (map keyword_name ks)) (fv # vs @ kvs) w3)))"
| "eval_list rt env [] w = Some ([], w)"
| "eval_list rt env (e # es) w =
     (case eval rt env e w of
        None \<Rightarrow> None
      | Some (v, w1) \<Rightarrow>
          (case eval_list rt env es w1 of
             None \<Rightarrow> None
           | Some (vs, w2) \<Rightarrow> Some (v # vs, w2)))"
| "eval_keyword rt env (Keyword k e) w = eval rt env e w"
| "eval_keywords rt env [] w = Some ([], w)"
| "eval_keywords rt env (k # ks) w =
     (case eval_keyword rt env k w of
        None \<Rightarrow> None
      | Some (v, w1) \<Rightarrow>
          (case eval_keywords rt env ks w1 of
             None \<Rightarrow> None
           | Some (vs, w2) \<Rightarrow> Some (v # vs, w2)))"

text \<open>
  A statement changes the bindings of the names and the world. An assignment binds a
  plain name (the notebook assigns to nothing else); an expression statement keeps the
  world its evaluation leaves; a star import adds the names of the module; a
  \<^verbatim>\<open>for\<close> binds its variable to each item in turn. Definitions of functions and
  classes do not occur in the notebook and are not given a meaning.
\<close>

fun exec :: "('v, 'w) runtime \<Rightarrow> stmt \<Rightarrow> 'v env \<times> 'w \<Rightarrow> ('v env \<times> 'w) option"
  and exec_body :: "('v, 'w) runtime \<Rightarrow> stmt list \<Rightarrow> 'v env \<times> 'w \<Rightarrow> ('v env \<times> 'w) option"
  and exec_for :: "('v, 'w) runtime \<Rightarrow> string \<Rightarrow> stmt list \<Rightarrow> 'v list \<Rightarrow> 'v env \<times> 'w \<Rightarrow> ('v env \<times> 'w) option"
  where
  "exec rt (ImportFrom m ns) (env, w) =
     (case import_star rt m w of
        None \<Rightarrow> None
      | Some (names, w1) \<Rightarrow> Some (env ++ names, w1))"
| "exec rt (Assign t e) (env, w) =
     (case t of
        Name x \<Rightarrow>
          (case eval rt env e w of
             None \<Rightarrow> None
           | Some (v, w1) \<Rightarrow> Some (env(x \<mapsto> v), w1))
      | _ \<Rightarrow> None)"
| "exec rt (Expr e) (env, w) =
     (case eval rt env e w of
        None \<Rightarrow> None
      | Some (v, w1) \<Rightarrow> Some (env, w1))"
| "exec rt (For x it body) (env, w) =
     (case eval rt env it w of
        None \<Rightarrow> None
      | Some (v, w1) \<Rightarrow>
          (case items rt v w1 of
             None \<Rightarrow> None
           | Some (vs, w2) \<Rightarrow> exec_for rt x body vs (env, w2)))"
| "exec rt (IfStmt c body orelse) (env, w) =
     (case eval rt env c w of
        None \<Rightarrow> None
      | Some (v, w1) \<Rightarrow>
          (case truth rt v w1 of
             None \<Rightarrow> None
           | Some (b, w2) \<Rightarrow>
               (if b then exec_body rt body (env, w2) else exec_body rt orelse (env, w2))))"
| "exec rt (FunctionDef f ps body) st = None"
| "exec rt (ClassDef c body) st = None"
| "exec_body rt [] st = Some st"
| "exec_body rt (s # ss) st =
     (case exec rt s st of
        None \<Rightarrow> None
      | Some st1 \<Rightarrow> exec_body rt ss st1)"
| "exec_for rt x body [] st = Some st"
| "exec_for rt x body (v # vs) (env, w) =
     (case exec_body rt body (env(x \<mapsto> v), w) of
        None \<Rightarrow> None
      | Some st1 \<Rightarrow> exec_for rt x body vs st1)"










text \<open>
  The names an expression reads, the name a statement is sure to have bound when it
  ends, and the check that a statement reads only names of a given list or names it
  has bound itself before. Two bindings agree on a set of names when they bind each of
  them alike.
\<close>

fun names :: "expr \<Rightarrow> string list"
  and names_list :: "expr list \<Rightarrow> string list"
  and names_keyword :: "keyword \<Rightarrow> string list"
  and names_keywords :: "keyword list \<Rightarrow> string list" where
  "names (Name x) = [x]"
| "names (Attribute e a) = names e"
| "names (Str s) = []"
| "names (Num n) = []"
| "names NoneConst = []"
| "names (ListExpr es) = names_list es"
| "names (TupleExpr es) = names_list es"
| "names (Subscript e i) = names e @ names i"
| "names (USub e) = names e"
| "names (Div l r) = names l @ names r"
| "names (Call f es ks) = names f @ names_list es @ names_keywords ks"
| "names_list [] = []"
| "names_list (e # es) = names e @ names_list es"
| "names_keyword (Keyword k v) = names v"
| "names_keywords [] = []"
| "names_keywords (k # ks) = names_keyword k @ names_keywords ks"





definition agree :: "string set \<Rightarrow> 'v env \<Rightarrow> 'v env \<Rightarrow> bool" where
  "agree A env1 env2 = (\<forall>x. x \<in> A \<longrightarrow> env1 x = env2 x)"

text \<open>Two runs end alike: both raise, or both end in the same world with bindings that agree.\<close>

definition same_outcome ::
  "string set \<Rightarrow> ('v env \<times> 'w) option \<Rightarrow> ('v env \<times> 'w) option \<Rightarrow> bool" where
  "same_outcome A r1 r2 =
     (case (r1, r2) of
        (None, None) \<Rightarrow> True
      | (Some (e1, w1), Some (e2, w2)) \<Rightarrow> w1 = w2 \<and> agree A e1 e2
      | _ \<Rightarrow> False)"






subsection \<open>The \<^verbatim>\<open>os\<close> module as a runtime\<close>

text \<open>
  The runtime of the \<^verbatim>\<open>os\<close> module, for the operations cell 16 uses: the attribute
  accesses \<^verbatim>\<open>os.path\<close>, \<^verbatim>\<open>os.path.exists\<close> and \<^verbatim>\<open>os.remove\<close>, the
  division of a path by a string, the list display, and the calls of the two
  functions on the file system as defined above. Every other operation raises.
\<close>

datatype pyval =
  PStr string | PPath fpath | PList "pyval list" | PBool bool | PNone | PModule string
  | PFunction string

definition os_attr :: "string \<Rightarrow> string \<Rightarrow> pyval option" where
  "os_attr m a =
     (if m = ''os'' \<and> a = ''path'' then Some (PModule ''os.path'')
      else if m = ''os.path'' \<and> a = ''exists'' then Some (PFunction ''os.path.exists'')
      else if m = ''os'' \<and> a = ''remove'' then Some (PFunction ''os.remove'')
      else None)"

definition os_call :: "string \<Rightarrow> fpath \<Rightarrow> filesystem \<Rightarrow> (pyval \<times> filesystem) option" where
  "os_call f p fs =
     (if f = ''os.path.exists'' then Some (PBool (os_path_exists fs p), fs)
      else if f = ''os.remove'' then
        (case os_remove fs p of Inl e \<Rightarrow> None | Inr fs' \<Rightarrow> Some (PNone, fs'))
      else None)"

definition os_op :: "op \<Rightarrow> pyval list \<Rightarrow> filesystem \<Rightarrow> (pyval \<times> filesystem) option" where
  "os_op f vs fs =
     (case f of
        GetAttr a \<Rightarrow>
          (case vs of
             [PModule m] \<Rightarrow> map_option (\<lambda>v. (v, fs)) (os_attr m a)
           | _ \<Rightarrow> None)
      | TrueDiv \<Rightarrow>
          (case vs of
             [PPath p, PStr s] \<Rightarrow> Some (PPath (path_div p s), fs)
           | _ \<Rightarrow> None)
      | BuildList \<Rightarrow> Some (PList vs, fs)
      | CallFn ks \<Rightarrow>
          (case (ks, vs) of
             ([], [PFunction g, PPath p]) \<Rightarrow> os_call g p fs
           | _ \<Rightarrow> None)
      | _ \<Rightarrow> None)"

definition os_runtime :: "(pyval, filesystem) runtime" where
  "os_runtime =
     \<lparr> literal = (\<lambda>e. case e of Str s \<Rightarrow> PStr s | _ \<Rightarrow> PNone),
       builtin = (\<lambda>x. if x = ''os'' then Some (PModule ''os'') else None),
       apply_op = os_op,
       truth = (\<lambda>v fs. case v of PBool b \<Rightarrow> Some (b, fs) | _ \<Rightarrow> None),
       items = (\<lambda>v fs. case v of PList vs \<Rightarrow> Some (vs, fs) | _ \<Rightarrow> None),
       import_star = (\<lambda>m fs. None) \<rparr>"


section \<open>The preprocessing cache\<close>

text \<open>
  Modelled from the spec: \<^verbatim>\<open>TextDataset\<close> and the \<^verbatim>\<open>from_df\<close> and
  \<^verbatim>\<open>from_csv\<close> factory methods belong to the fastai library, whose code is not
  among the files. What they do with the preprocessed data is taken from the spec
  ("cached intermediate artifacts (tokenized text, numericalized ids, label arrays, and
  a vocabulary mapping) that the external library persists to speed up repeated
  preprocessing") and from the notebook's own text (cells 18 and 20): the library
  stores, in a \<^verbatim>\<open>tmp\<close> directory of the folder given, the tokens in
  \<^verbatim>\<open>_tok.npy\<close> files, the labels in \<^verbatim>\<open>_lbl.npy\<close> files, the ids in
  \<^verbatim>\<open>_id.npy\<close> files and the dictionary in \<^verbatim>\<open>itos.pkl\<close>, and "when you
  reexecute the line in the future, it will directly load that data"; the factory
  methods call \<^verbatim>\<open>TextDataset\<close> "behind the scenes for train.csv and valid.csv".
  Preprocessing a set prints \<^verbatim>\<open>Numericalizing <name>.\<close>, as the captured outputs
  show.
\<close>

definition artifacts :: "fpath \<Rightarrow> string \<Rightarrow> fpath list" where
  "artifacts path name =
     map (path_div (path_div path ''tmp''))
       [name @ ''_tok.npy'', name @ ''_lbl.npy'', name @ ''_id.npy'', ''itos.pkl'']"

definition cached :: "filesystem \<Rightarrow> fpath \<Rightarrow> string \<Rightarrow> bool" where
  "cached fs path name = list_all (\<lambda>p. fs p = Some RegularFile) (artifacts path name)"

fun store :: "fpath list \<Rightarrow> filesystem \<Rightarrow> filesystem" where
  "store [] fs = fs"
| "store (p # ps) fs = store ps (fs(p \<mapsto> RegularFile))"

datatype prep = Preprocessed string | LoadedFromCache string

type_synonym prep_result = "prep list \<times> string list \<times> filesystem"

definition text_dataset :: "fpath \<Rightarrow> string \<Rightarrow> filesystem \<Rightarrow> prep_result" where
  "text_dataset path name fs =
     (if cached fs path name then ([LoadedFromCache name], [], fs)
      else ([Preprocessed name], [''Numericalizing '' @ name @ ''.\<newline>''],
            store (artifacts path name) fs))"

definition and_then :: "prep_result \<Rightarrow> (filesystem \<Rightarrow> prep_result) \<Rightarrow> prep_result" where
  "and_then r f =
     (case r of (done1, out1, fs1) \<Rightarrow>
        (case f fs1 of (done2, out2, fs2) \<Rightarrow> (done1 @ done2, out1 @ out2, fs2)))"

definition from_csv :: "fpath \<Rightarrow> filesystem \<Rightarrow> prep_result" where
  "from_csv path fs = and_then (text_dataset path ''train'' fs) (text_dataset path ''valid'')"

text \<open>
  Cell 17, \<^verbatim>\<open>train_ds = TextDataset.from_df(path, df, classes=classes)\<close>, and cell 19,
  \<^verbatim>\<open>data_lm = TextLMDataBunch.from_csv(path)\<close> followed by
  \<^verbatim>\<open>data_clas = TextClasDataBunch.from_csv(path, vocab=..., bs=32)\<close>.
\<close>

definition cell_17 :: "fpath \<Rightarrow> filesystem \<Rightarrow> prep_result" where
  "cell_17 path fs = text_dataset path ''train'' fs"

definition cell_19 :: "fpath \<Rightarrow> filesystem \<Rightarrow> prep_result" where
  "cell_19 path fs = and_then (from_csv path fs) (from_csv path)"

text \<open>What a cell's captured output holds on its streams.\<close>

fun stream_lines :: "nb_output \<Rightarrow> string list" where
  "stream_lines (Stream n ls) = ls"
| "stream_lines (ExecuteResult h p) = []"

definition printed :: "nb_cell \<Rightarrow> string list" where
  "printed c = concat (map stream_lines (cell_outputs c))"

section \<open>The vocabulary of the two data bunches\<close>

text \<open>
  Modelled from the spec: the data bunch classes are fastai's and not among the files.
  A bunch holds a training and a validation set, each with its vocabulary. The
  notebook's text (cell 20) says of the keyword \<^verbatim>\<open>vocab\<close>: "we also pass the
  vocabulary (mapping from ids to words) that we want to use: this is to ensure that
  data_clas will use the same dictionary as data_lm". So
  \<^verbatim>\<open>TextClasDataBunch.from_csv(path, vocab=v, bs=b)\<close> gives both of its sets the
  vocabulary \<open>v\<close>.
\<close>

record 'v text_dataset =
  vocab :: 'v

record 'v data_bunch =
  train_ds :: "'v text_dataset"
  valid_ds :: "'v text_dataset"
  bs :: nat




section \<open>The data shown in the outputs\<close>

text \<open>
  The output of \<^verbatim>\<open>df.head()\<close> in cell 11 is an HTML table, one element per line.
  \<open>table_rows\<close> reads its rows: the header and index cells (\<^verbatim>\<open>th\<close>) and the data
  cells (\<^verbatim>\<open>td\<close>) between a \<^verbatim>\<open>tr\<close> and its end.
\<close>

datatype table_cell = Th string | Td string

definition ends_with :: "string \<Rightarrow> string \<Rightarrow> bool" where
  "ends_with suffix s = starts_with (rev suffix) (rev s)"

definition element :: "string \<Rightarrow> string \<Rightarrow> string option" where
  "element tag l =
     (let s = dropWhile (\<lambda>c. c = CHR '' '') l;
          opening = ''<'' @ tag @ ''>'';
          closing = ''</'' @ tag @ ''>\<newline>''
      in if starts_with opening s \<and> ends_with closing s
         then Some (take (length s - length opening - length closing) (drop (length opening) s))
         else None)"

fun table_rows :: "table_cell list option \<Rightarrow> string list \<Rightarrow> table_cell list list" where
  "table_rows cur [] = []"
| "table_rows cur (l # ls) =
     (let s = dropWhile (\<lambda>c. c = CHR '' '') l in
      if starts_with ''<tr'' s then table_rows (Some []) ls
      else if starts_with ''</tr>'' s then
        (case cur of Some r \<Rightarrow> r # table_rows None ls | None \<Rightarrow> table_rows None ls)
      else
        (case cur of
           None \<Rightarrow> table_rows None ls
         | Some r \<Rightarrow>
             (case element ''th'' l of
                Some h \<Rightarrow> table_rows (Some (r @ [Th h])) ls
              | None \<Rightarrow>
                  (case element ''td'' l of
                     Some d \<Rightarrow> table_rows (Some (r @ [Td d])) ls
                   | None \<Rightarrow> table_rows (Some r) ls))))"

fun result_html :: "nb_output \<Rightarrow> string list" where
  "result_html (ExecuteResult (Some h) p) = h"
| "result_html out = []"

fun result_plain :: "nb_output \<Rightarrow> string list" where
  "result_plain (ExecuteResult h p) = p"
| "result_plain out = []"

definition head_table :: "table_cell list list" where
  "head_table = table_rows None (concat (map result_html (cell_outputs nb_cell_11)))"

definition is_int_literal :: "string \<Rightarrow> bool" where
  "is_int_literal s = (s \<noteq> [] \<and> list_all (\<lambda>c. c \<in> set ''0123456789'') s)"

text \<open>A row of the data frame: its index, then an integer label, then text that is no number.\<close>

fun label_then_text :: "table_cell list \<Rightarrow> bool" where
  "label_then_text [Th i, Td l, Td t] = (is_int_literal l \<and> t \<noteq> [] \<and> \<not> is_int_literal t)"
| "label_then_text r = False"

text \<open>
  What Python shows for a tuple of strings: \<^verbatim>\<open>repr\<close> of a string without quotes or
  escapes is the string between single quotes, and a tuple of two or more is written
  in parentheses with \<^verbatim>\<open>, \<close> between the members.
\<close>

definition repr_str :: "string \<Rightarrow> string" where
  "repr_str s = [CHR 0x27] @ s @ [CHR 0x27]"

definition repr_tuple :: "string list \<Rightarrow> string" where
  "repr_tuple xs = ''('' @ join_with '', '' xs @ '')''"


section \<open>The notebook and its export, cell by cell\<close>

text \<open>
  The text a reader of the HTML page sees in a line: the runs of text and the
  characters the references stand for, without the tags. The exporter adds to every
  heading an anchor link (an \<^verbatim>\<open>a\<close> element of class \<^verbatim>\<open>anchor-link\<close>) that is not
  part of the cell's text; it is left out. The page uses the references
  \<^verbatim>\<open>&#39;\<close> and \<^verbatim>\<open>&#182;\<close>; the four named references of HTML's syntax are
  decoded as well.
\<close>

definition char_ref :: "string \<Rightarrow> string" where
  "char_ref r =
     (if r = ''#39'' then [CHR 0x27]
      else if r = ''#182'' then [CHR 0xB6]
      else if r = ''quot'' then [CHR 0x22]
      else if r = ''amp'' then ''&''
      else if r = ''lt'' then ''<''
      else if r = ''gt'' then ''>''
      else ''&'' @ r @ '';'')"

fun text_content :: "bool \<Rightarrow> html_line \<Rightarrow> string" where
  "text_content in_anchor [] = []"
| "text_content in_anchor (Tag t # ts) =
     (if in_anchor then text_content (t \<noteq> ''/a'') ts
      else text_content (starts_with ''a class=\"anchor-link\"'' t) ts)"
| "text_content in_anchor (Ref r # ts) =
     (if in_anchor then text_content in_anchor ts else char_ref r @ text_content in_anchor ts)"
| "text_content in_anchor (Txt s # ts) =
     (if in_anchor then text_content in_anchor ts else s @ text_content in_anchor ts)"

definition shown_text :: "html_line list \<Rightarrow> string" where
  "shown_text ls = concat (map (text_content False) ls)"

text \<open>The line as the file has it.\<close>

fun raw_token :: "html_token \<Rightarrow> string" where
  "raw_token (Tag t) = ''<'' @ t @ ''>''"
| "raw_token (Ref r) = ''&'' @ r @ '';''"
| "raw_token (Txt s) = s"

definition raw_html :: "html_line list \<Rightarrow> string" where
  "raw_html ls = concat (map (\<lambda>l. concat (map raw_token l)) ls)"

text \<open>
  The rendered text of a cell is compared line by line, without the line ends and
  without the lines that show nothing (the blank lines of the markdown source, the
  lines of the page that hold only a list's opening or closing tag).
\<close>

definition visible_lines :: "string list \<Rightarrow> string list" where
  "visible_lines ls = filter (\<lambda>l. l \<noteq> []) (map (filter (\<lambda>c. c \<noteq> CHR 0x0A)) ls)"

definition html_text :: "html_line list \<Rightarrow> string list" where
  "html_text ls = visible_lines (map (text_content False) ls)"

text \<open>
  The text of a line of markdown, for the markup the notebook uses: a heading's
  \<^verbatim>\<open>#\<close> marks, the marker of a list item (\<^verbatim>\<open>- \<close> or a number and
  \<^verbatim>\<open>. \<close>), links \<^verbatim>\<open>[text](target)\<close>, code spans between backquotes,
  emphasis between asterisks and inline HTML tags.
\<close>

definition is_digit :: "char \<Rightarrow> bool" where
  "is_digit c = (c \<in> set ''0123456789'')"

definition drop_marker :: "string \<Rightarrow> string" where
  "drop_marker s =
     (if starts_with ''#'' s then
        (let r = dropWhile (\<lambda>c. c = CHR ''#'') s in if starts_with '' '' r then drop 1 r else r)
      else if starts_with ''- '' s then drop 2 s
      else
        (let r = dropWhile is_digit s in
         if r \<noteq> s \<and> starts_with ''. '' r then drop 2 r else s))"

datatype md_mode = MdText | MdTarget | MdTag

fun md_inline :: "md_mode \<Rightarrow> string \<Rightarrow> string" where
  "md_inline m [] = []"
| "md_inline MdText (c # cs) =
     (if c = CHR ''['' \<or> c = CHR 0x60 \<or> c = CHR ''*'' then md_inline MdText cs
      else if c = CHR '']'' \<and> starts_with ''('' cs then md_inline MdTarget cs
      else if c = CHR ''<'' then md_inline MdTag cs
      else c # md_inline MdText cs)"
| "md_inline MdTarget (c # cs) = md_inline (if c = CHR '')'' then MdText else MdTarget) cs"
| "md_inline MdTag (c # cs) = md_inline (if c = CHR ''>'' then MdText else MdTag) cs"

definition md_text :: "string list \<Rightarrow> string list" where
  "md_text ls = visible_lines (map (\<lambda>l. md_inline MdText (drop_marker l)) ls)"

text \<open>
  An output of the notebook and an output area of the page hold the same: the text of
  a stream or of a plain result is the text the page shows, and the HTML of a result
  stands in the page as it is.
\<close>

fun same_output :: "nb_output \<Rightarrow> html_output \<Rightarrow> bool" where
  "same_output (Stream n ls) (OutputStream h) = (shown_text h = concat ls)"
| "same_output (ExecuteResult None p) (OutputText h) = (shown_text h = concat p)"
| "same_output (ExecuteResult (Some html) p) (OutputHtml h) = (raw_html h = concat html)"
| "same_output out area = False"

text \<open>The page shows a cell's source: its input area holds the source and a final newline.\<close>

fun shows_source :: "string list \<Rightarrow> html_line list option \<Rightarrow> bool" where
  "shows_source src (Some h) = (shown_text h = concat src @ ''\<newline>'')"
| "shows_source src None = False"

text \<open>
  The claim's correspondence: a text cell for a markdown cell, with the same rendered
  text; a code cell for a code cell, with the same source and the same outputs.
\<close>

fun mirrors :: "nb_cell \<Rightarrow> html_cell \<Rightarrow> bool" where
  "mirrors (Markdown src) (TextCell h) = (md_text src = html_text h)"
| "mirrors (Code hide outs src) (CodeCell inp areas) =
     (shows_source src inp \<and> list_all2 same_output outs areas)"
| "mirrors c h = False"

text \<open>
  What the export does: the same, but a code cell whose metadata sets
  \<^verbatim>\<open>hide_input\<close> is exported without an input area.
\<close>

fun exported_as :: "nb_cell \<Rightarrow> html_cell \<Rightarrow> bool" where
  "exported_as (Markdown src) (TextCell h) = (md_text src = html_text h)"
| "exported_as (Code hide outs src) (CodeCell inp areas) =
     ((if hide then inp = None else shows_source src inp) \<and> list_all2 same_output outs areas)"
| "exported_as c h = False"


section \<open>Properties\<close>

lemma code_cells_eq:
  "code_cells =
    [nb_cell_01, nb_cell_07, nb_cell_09, nb_cell_11, nb_cell_13, nb_cell_16, nb_cell_17,
     nb_cell_19, nb_cell_23, nb_cell_25, nb_cell_27, nb_cell_30, nb_cell_32, nb_cell_33]"
  unfolding code_cells_def notebook_def
  by (simp add: nb_cell_00_def nb_cell_01_def nb_cell_02_def nb_cell_03_def nb_cell_04_def
      nb_cell_05_def nb_cell_06_def nb_cell_07_def nb_cell_08_def nb_cell_09_def nb_cell_10_def
      nb_cell_11_def nb_cell_12_def nb_cell_13_def nb_cell_14_def nb_cell_15_def nb_cell_16_def
      nb_cell_17_def nb_cell_18_def nb_cell_19_def nb_cell_20_def nb_cell_21_def nb_cell_22_def
      nb_cell_23_def nb_cell_24_def nb_cell_25_def nb_cell_26_def nb_cell_27_def nb_cell_28_def
      nb_cell_29_def nb_cell_30_def nb_cell_31_def nb_cell_32_def nb_cell_33_def)

lemma transcribes_01: "transcribes code_01 nb_cell_01" by code_simp
lemma transcribes_07: "transcribes code_07 nb_cell_07" by code_simp
lemma transcribes_09: "transcribes code_09 nb_cell_09" by code_simp
lemma transcribes_11: "transcribes code_11 nb_cell_11" by code_simp
lemma transcribes_13: "transcribes code_13 nb_cell_13" by code_simp
lemma transcribes_16: "transcribes code_16 nb_cell_16" by code_simp
lemma transcribes_17: "transcribes code_17 nb_cell_17" by code_simp
lemma transcribes_19: "transcribes code_19 nb_cell_19" by code_simp
lemma transcribes_23: "transcribes code_23 nb_cell_23" by code_simp
lemma transcribes_25: "transcribes code_25 nb_cell_25" by code_simp
lemma transcribes_27: "transcribes code_27 nb_cell_27" by code_simp
lemma transcribes_30: "transcribes code_30 nb_cell_30" by code_simp
lemma transcribes_32: "transcribes code_32 nb_cell_32" by code_simp
lemma transcribes_33: "transcribes code_33 nb_cell_33" by code_simp

lemma session_transcribes_notebook: "list_all2 transcribes session code_cells"
  unfolding code_cells_eq session_def
  by (simp add: transcribes_01 transcribes_07 transcribes_09 transcribes_11 transcribes_13
      transcribes_16 transcribes_17 transcribes_19 transcribes_23 transcribes_25 transcribes_27
      transcribes_30 transcribes_32 transcribes_33)


subsection \<open>The statements of the code cells\<close>

lemma session_is_library_glue: "list_all library_glue_body session"
  by code_simp

lemma session_has_no_def: "list_all (\<lambda>ss. \<not> has_def_body ss) session"
  by code_simp

lemma session_other_statements:
  "filter (\<lambda>s. \<not> import_or_library_call s) (concat session) =
     [Expr (Name ''path''),
      Expr (TupleExpr [Subscript (Name ''classes'') (Num ''0''),
                       Subscript (Name ''classes'') (Num ''1'')]),
      For ''file'' (ListExpr [Str ''train_tok.npy'', Str ''valid_tok.npy''])
        [IfStmt (Call (Attribute (Attribute (Name ''os'') ''path'') ''exists'')
               [Div (Div (Name ''path'') (Str ''tmp'')) (Name ''file'')] [])
           [Expr (Call (Attribute (Name ''os'') ''remove'')
                    [Div (Div (Name ''path'') (Str ''tmp'')) (Name ''file'')] [])]
           []]]"
  by code_simp

text \<open>
  C2, as stated: every code statement is an import or a call into a library. It fails:
  the second statement of cell 9 is the bare name \<^verbatim>\<open>path\<close>.
\<close>

theorem C2_counterexample: "\<not> list_all (list_all import_or_library_call) session"
  by code_simp

text \<open>
  C2, amended. The syntax trees of \<open>session\<close> are the code of the notebook's code cells.
  No statement defines a function or a class. Every statement is an import, an
  assignment or expression statement whose value is a call into fastai, pandas or os,
  an expression statement that makes no call, or a \<^verbatim>\<open>for\<close>/\<^verbatim>\<open>if\<close> over such
  statements whose condition is a library call. The statements that are neither an
  import nor a library call are three: \<^verbatim>\<open>path\<close>, \<^verbatim>\<open>classes[0], classes[1]\<close> and
  the loop of cell 16.
\<close>

theorem C2_statements_are_library_glue:
  "list_all2 transcribes session code_cells
   \<and> list_all library_glue_body session
   \<and> list_all (\<lambda>ss. \<not> has_def_body ss) session
   \<and> filter (\<lambda>s. \<not> import_or_library_call s) (concat session) =
       [Expr (Name ''path''),
        Expr (TupleExpr [Subscript (Name ''classes'') (Num ''0''),
                         Subscript (Name ''classes'') (Num ''1'')]),
        For ''file'' (ListExpr [Str ''train_tok.npy'', Str ''valid_tok.npy''])
          [IfStmt (Call (Attribute (Attribute (Name ''os'') ''path'') ''exists'')
                 [Div (Div (Name ''path'') (Str ''tmp'')) (Name ''file'')] [])
             [Expr (Call (Attribute (Name ''os'') ''remove'')
                      [Div (Div (Name ''path'') (Str ''tmp'')) (Name ''file'')] [])]
             []]]"
  using session_transcribes_notebook session_is_library_glue session_has_no_def
    session_other_statements
  by blast

subsection \<open>The calls and the spec's five groups\<close>

lemma session_callees_eq:
  "session_callees =
     [''untar_data'', ''pd.read_csv'', ''df.head'', ''read_classes'', ''os.path.exists'',
      ''os.remove'', ''TextDataset.from_df'', ''TextLMDataBunch.from_csv'',
      ''TextClasDataBunch.from_csv'', ''RNNLearner.language_model'', ''learn.save_encoder'',
      ''RNNLearner.classifier'', ''learn.load_encoder'', ''learn.freeze_to'', ''learn.unfreeze'',
      ''slice'', ''learn.fit_one_cycle'']"
  by code_simp

lemma callees_outside_groups:
  "filter (\<lambda>f. \<not> in_spec_groups f) session_callees =
     [''df.head'', ''os.path.exists'', ''os.remove'', ''RNNLearner.language_model'',
      ''RNNLearner.classifier'', ''slice'']"
  unfolding session_callees_eq by code_simp

lemma callees_inside_groups:
  "map (\<lambda>f. (f, spec_group f)) (filter in_spec_groups session_callees) =
     [(''untar_data'', Some DownloadHelper),
      (''pd.read_csv'', Some CsvLoading),
      (''read_classes'', Some ClassListLoading),
      (''TextDataset.from_df'', Some DataFactory),
      (''TextLMDataBunch.from_csv'', Some DataFactory),
      (''TextClasDataBunch.from_csv'', Some DataFactory),
      (''learn.save_encoder'', Some LearnerMethod),
      (''learn.load_encoder'', Some LearnerMethod),
      (''learn.freeze_to'', Some LearnerMethod),
      (''learn.unfreeze'', Some LearnerMethod),
      (''learn.fit_one_cycle'', Some LearnerMethod)]"
  unfolding session_callees_eq by code_simp

lemma hidden_cell_callees:
  "map callee (body_calls code_16) = [''os.path.exists'', ''os.remove'']"
  by code_simp

text \<open>
  C3, as stated: every call of the documents is in one of the five groups. It fails:
  \<^verbatim>\<open>os.remove\<close> is called in cell 16 and is in none of them.
\<close>

theorem C3_counterexample:
  "''os.remove'' \<in> set session_callees \<and> \<not> in_spec_groups ''os.remove''
   \<and> \<not> list_all in_spec_groups session_callees"
  unfolding session_callees_eq by code_simp

text \<open>
  C3, amended. Eleven of the seventeen functions and methods the notebook calls are in
  the five groups, as listed. Six are in none: \<^verbatim>\<open>df.head\<close>, \<^verbatim>\<open>os.path.exists\<close>
  and \<^verbatim>\<open>os.remove\<close> (the two calls of the hidden cell 16),
  the learner constructors \<^verbatim>\<open>RNNLearner.language_model\<close> and
  \<^verbatim>\<open>RNNLearner.classifier\<close>, and the builtin \<^verbatim>\<open>slice\<close>.
\<close>

theorem C3_calls_and_groups:
  "filter (\<lambda>f. \<not> in_spec_groups f) session_callees =
     [''df.head'', ''os.path.exists'', ''os.remove'', ''RNNLearner.language_model'',
      ''RNNLearner.classifier'', ''slice'']
   \<and> map (\<lambda>f. (f, spec_group f)) (filter in_spec_groups session_callees) =
     [(''untar_data'', Some DownloadHelper),
      (''pd.read_csv'', Some CsvLoading),
      (''read_classes'', Some ClassListLoading),
      (''TextDataset.from_df'', Some DataFactory),
      (''TextLMDataBunch.from_csv'', Some DataFactory),
      (''TextClasDataBunch.from_csv'', Some DataFactory),
      (''learn.save_encoder'', Some LearnerMethod),
      (''learn.load_encoder'', Some LearnerMethod),
      (''learn.freeze_to'', Some LearnerMethod),
      (''learn.unfreeze'', Some LearnerMethod),
      (''learn.fit_one_cycle'', Some LearnerMethod)]
   \<and> map callee (body_calls code_16) = [''os.path.exists'', ''os.remove'']"
  using callees_outside_groups callees_inside_groups hidden_cell_callees by blast

subsection \<open>The order of the calls on learners\<close>






subsection \<open>Which outputs come from training\<close>







subsection \<open>The data set and the class names\<close>

lemma cell_11_statements:
  "code_11 =
     [Assign (Name ''df'')
        (Call (Attribute (Name ''pd'') ''read_csv'') [Div (Name ''path'') (Str ''train.csv'')]
           [Keyword ''header'' NoneConst]),
      Expr (Call (Attribute (Name ''df'') ''head'') [] [])]"
  by code_simp

lemma cell_13_statements:
  "code_13 =
     [Assign (Name ''classes'')
        (Call (Name ''read_classes'') [Div (Name ''path'') (Str ''classes.txt'')] []),
      Expr (TupleExpr [Subscript (Name ''classes'') (Num ''0''),
                       Subscript (Name ''classes'') (Num ''1'')])]"
  by code_simp

lemma head_table_eq:
  "head_table =
     [[Th [], Th ''0'', Th ''1''],
      [Th ''0'', Td ''0'', Td ''Un-bleeping-believable! Meg Ryan doesn't even ...''],
      [Th ''1'', Td ''1'', Td ''This is a extremely well-made film. The acting...''],
      [Th ''2'', Td ''0'', Td ''Every once in a long while a movie will come a...''],
      [Th ''3'', Td ''1'', Td ''Name just says it all. I watched this movie wi...''],
      [Th ''4'', Td ''0'', Td ''This movie succeeds at being one of the most u...'']]"
  by code_simp

lemma head_rows: "list_all label_then_text (tl head_table)"
  unfolding head_table_eq by code_simp

lemma shown_classes:
  "concat (map result_plain (cell_outputs nb_cell_13))
     = [repr_tuple [repr_str ''negative'', repr_str ''positive'']]"
  by code_simp

text \<open>
  C4. Cell 11 reads \<^verbatim>\<open>train.csv\<close> with \<^verbatim>\<open>pd.read_csv\<close> and without a header
  row, and shows the head of the data frame: beside the index, two columns, numbered 0
  and 1, and five rows, each with an integer label (0, 1, 0, 1, 0) followed by text
  that is no number. Cell 13 reads \<^verbatim>\<open>classes.txt\<close> with \<^verbatim>\<open>read_classes\<close> and
  shows the tuple of the entries at index 0 and 1: \<^verbatim>\<open>('negative', 'positive')\<close>.
\<close>

theorem C4_dataset_and_classes:
  "code_11 =
     [Assign (Name ''df'')
        (Call (Attribute (Name ''pd'') ''read_csv'') [Div (Name ''path'') (Str ''train.csv'')]
           [Keyword ''header'' NoneConst]),
      Expr (Call (Attribute (Name ''df'') ''head'') [] [])]
   \<and> hd head_table = [Th [], Th ''0'', Th ''1'']
   \<and> length (tl head_table) = 5
   \<and> list_all label_then_text (tl head_table)
   \<and> map (\<lambda>r. r ! 1) (tl head_table) = [Td ''0'', Td ''1'', Td ''0'', Td ''1'', Td ''0'']
   \<and> code_13 =
     [Assign (Name ''classes'')
        (Call (Name ''read_classes'') [Div (Name ''path'') (Str ''classes.txt'')] []),
      Expr (TupleExpr [Subscript (Name ''classes'') (Num ''0''),
                       Subscript (Name ''classes'') (Num ''1'')])]
   \<and> concat (map result_plain (cell_outputs nb_cell_13))
       = [repr_tuple [repr_str ''negative'', repr_str ''positive'']]"
proof (intro conjI)
  show "code_11 =
     [Assign (Name ''df'')
        (Call (Attribute (Name ''pd'') ''read_csv'') [Div (Name ''path'') (Str ''train.csv'')]
           [Keyword ''header'' NoneConst]),
      Expr (Call (Attribute (Name ''df'') ''head'') [] [])]"
    by (rule cell_11_statements)
  show "hd head_table = [Th [], Th ''0'', Th ''1'']"
    unfolding head_table_eq by simp
  show "length (tl head_table) = 5"
    unfolding head_table_eq by simp
  show "list_all label_then_text (tl head_table)"
    by (rule head_rows)
  show "map (\<lambda>r. r ! 1) (tl head_table) = [Td ''0'', Td ''1'', Td ''0'', Td ''1'', Td ''0'']"
    unfolding head_table_eq by simp
  show "code_13 =
     [Assign (Name ''classes'')
        (Call (Name ''read_classes'') [Div (Name ''path'') (Str ''classes.txt'')] []),
      Expr (TupleExpr [Subscript (Name ''classes'') (Num ''0''),
                       Subscript (Name ''classes'') (Num ''1'')])]"
    by (rule cell_13_statements)
  show "concat (map result_plain (cell_outputs nb_cell_13))
       = [repr_tuple [repr_str ''negative'', repr_str ''positive'']]"
    by (rule shown_classes)
qed


subsection \<open>The cache-deletion loop\<close>

lemma tok_paths_differ: "train_tok path \<noteq> valid_tok path"
  by (simp add: train_tok_def valid_tok_def path_div_def)

text \<open>What the loop does, for every directory and every file system.\<close>

lemma cell_16_eq:
  "cell_16 path fs =
     (if fs (train_tok path) = Some Directory
        then (Some (IsADirectoryError (train_tok path)), fs)
      else if fs (valid_tok path) = Some Directory
        then (Some (IsADirectoryError (valid_tok path)), fs(train_tok path := None))
      else (None, fs(train_tok path := None, valid_tok path := None)))"
proof -
  have neq: "train_tok path \<noteq> valid_tok path" by (rule tok_paths_differ)
  show ?thesis
    unfolding cell_16_def
    using neq
    apply (simp add: os_path_exists_def os_remove_def train_tok_def[symmetric]
        valid_tok_def[symmetric] split: option.splits node.splits)
    apply (auto simp: fun_upd_idem)
    done
qed

text \<open>
  \<open>cell_16\<close> is what the interpreter makes of the statements of the cell with the
  runtime of the \<^verbatim>\<open>os\<close> module, when \<^verbatim>\<open>path\<close> is bound to a path: the run raises
  when \<open>cell_16\<close> returns an exception, and ends with the file system \<open>cell_16\<close>
  returns otherwise.
\<close>

lemma code_16_runs_as_cell_16:
  assumes "env ''path'' = Some (PPath p)" and "env ''os'' = None"
  shows "map_option snd (exec_body os_runtime code_16 (env, fs))
       = (case cell_16 p fs of (None, fs') \<Rightarrow> Some fs' | (Some e, fs') \<Rightarrow> None)"
  using assms
  unfolding code_16_def tmp_file_def dotted_def cell_16_def
  by (simp add: os_runtime_def os_op_def os_attr_def os_call_def os_path_exists_def os_remove_def
      split: option.splits node.splits)





subsection \<open>Bindings and the two phases\<close>






text \<open>A run depends only on the names its statements read.\<close>

lemma agree_mono: "agree A e1 e2 \<Longrightarrow> B \<subseteq> A \<Longrightarrow> agree B e1 e2"
  by (auto simp: agree_def)


lemma same_outcome_None [simp]: "same_outcome A None None"
  by (simp add: same_outcome_def)

lemma same_outcome_Some [simp]:
  "same_outcome A (Some (e1, w1)) (Some (e2, w2)) = (w1 = w2 \<and> agree A e1 e2)"
  by (simp add: same_outcome_def)









subsection \<open>The vocabulary of the classifier's data\<close>








subsection \<open>The preprocessing cache\<close>

lemma store_apply: "store ps fs p = (if p \<in> set ps then Some RegularFile else fs p)"
  by (induction ps arbitrary: fs) auto

lemma artifacts_train:
  "artifacts path ''train'' =
     [train_tok path, path_div (path_div path ''tmp'') ''train_lbl.npy'',
      path_div (path_div path ''tmp'') ''train_id.npy'',
      path_div (path_div path ''tmp'') ''itos.pkl'']"
  by (simp add: artifacts_def train_tok_def)

lemma artifacts_valid:
  "artifacts path ''valid'' =
     [valid_tok path, path_div (path_div path ''tmp'') ''valid_lbl.npy'',
      path_div (path_div path ''tmp'') ''valid_id.npy'',
      path_div (path_div path ''tmp'') ''itos.pkl'']"
  by (simp add: artifacts_def valid_tok_def)

lemma valid_tok_not_train: "valid_tok path \<notin> set (artifacts path ''train'')"
  by (simp add: artifacts_train train_tok_def valid_tok_def path_div_def)

lemma cached_after_store: "cached (store (artifacts path name) fs) path name"
  by (simp add: cached_def store_apply list_all_iff)

lemma cached_kept: "cached fs path name \<Longrightarrow> cached (store ps fs) path name"
  by (simp add: cached_def store_apply list_all_iff)

lemma not_cached_train: "fs (train_tok path) = None \<Longrightarrow> \<not> cached fs path ''train''"
  by (simp add: cached_def artifacts_train)

lemma not_cached_valid: "fs (valid_tok path) = None \<Longrightarrow> \<not> cached fs path ''valid''"
  by (simp add: cached_def artifacts_valid)

lemma cell_17_fresh:
  assumes "fs (train_tok path) = None"
  shows "cell_17 path fs =
           ([Preprocessed ''train''], [''Numericalizing train.\<newline>''],
            store (artifacts path ''train'') fs)"
  using not_cached_train[of fs path, OF assms] by (simp add: cell_17_def text_dataset_def)

lemma cell_19_after_17:
  assumes "fs (valid_tok path) = None"
  shows "cell_19 path (store (artifacts path ''train'') fs) =
           ([LoadedFromCache ''train'', Preprocessed ''valid'',
             LoadedFromCache ''train'', LoadedFromCache ''valid''],
            [''Numericalizing valid.\<newline>''],
            store (artifacts path ''valid'') (store (artifacts path ''train'') fs))"
proof -
  let ?fs2 = "store (artifacts path ''train'') fs"
  let ?fs3 = "store (artifacts path ''valid'') ?fs2"
  have c_train: "cached ?fs2 path ''train''" by (rule cached_after_store)
  have "?fs2 (valid_tok path) = None"
    using assms valid_tok_not_train by (simp add: store_apply)
  then have n_valid: "\<not> cached ?fs2 path ''valid''" by (rule not_cached_valid[of ?fs2 path])
  have c_train3: "cached ?fs3 path ''train''" using c_train by (rule cached_kept)
  have c_valid3: "cached ?fs3 path ''valid''" by (rule cached_after_store)
  have lm: "from_csv path ?fs2 =
              ([LoadedFromCache ''train'', Preprocessed ''valid''],
               [''Numericalizing valid.\<newline>''], ?fs3)"
    using c_train n_valid by (simp add: from_csv_def and_then_def text_dataset_def)
  have clas: "from_csv path ?fs3 = ([LoadedFromCache ''train'', LoadedFromCache ''valid''], [], ?fs3)"
    using c_train3 c_valid3 by (simp add: from_csv_def and_then_def text_dataset_def)
  show ?thesis
    by (simp add: cell_19_def and_then_def lm clas)
qed

lemma printed_17: "printed nb_cell_17 = [''Numericalizing train.\<newline>'']"
  by code_simp

lemma printed_19: "printed nb_cell_19 = [''Numericalizing valid.\<newline>'']"
  by code_simp

text \<open>
  C5. Let the cache-deletion loop of cell 16 have completed. Then cell 17 preprocesses
  the training set, prints what the notebook shows for it and leaves the training set
  cached; and cell 19, which builds the two data bunches over the training and the
  validation set, loads the training set from the cache both times, preprocesses the
  validation set once, for the first bunch, and prints what the notebook shows for it.
\<close>

theorem C5_training_set_from_cache:
  assumes "fst (cell_16 path fs) = None"
  shows "fst (cell_17 path (snd (cell_16 path fs))) = [Preprocessed ''train'']
   \<and> fst (snd (cell_17 path (snd (cell_16 path fs)))) = printed nb_cell_17
   \<and> cached (snd (snd (cell_17 path (snd (cell_16 path fs))))) path ''train''
   \<and> fst (cell_19 path (snd (snd (cell_17 path (snd (cell_16 path fs))))))
       = [LoadedFromCache ''train'', Preprocessed ''valid'',
          LoadedFromCache ''train'', LoadedFromCache ''valid'']
   \<and> fst (snd (cell_19 path (snd (snd (cell_17 path (snd (cell_16 path fs)))))))
       = printed nb_cell_19"
proof -
  let ?fs1 = "snd (cell_16 path fs)"
  from assms have fs1: "?fs1 = fs(train_tok path := None, valid_tok path := None)"
    by (simp add: cell_16_eq split: if_splits)
  have t: "?fs1 (train_tok path) = None" and v: "?fs1 (valid_tok path) = None"
    using tok_paths_differ[of path] by (simp_all add: fs1)
  have c17: "cell_17 path ?fs1 =
    ([Preprocessed ''train''], [''Numericalizing train.\<newline>''],
     store (artifacts path ''train'') ?fs1)"
    by (rule cell_17_fresh[of ?fs1 path, OF t])
  have c19: "cell_19 path (store (artifacts path ''train'') ?fs1) =
           ([LoadedFromCache ''train'', Preprocessed ''valid'',
             LoadedFromCache ''train'', LoadedFromCache ''valid''],
            [''Numericalizing valid.\<newline>''],
            store (artifacts path ''valid'') (store (artifacts path ''train'') ?fs1))"
    by (rule cell_19_after_17[of ?fs1 path, OF v])
  show ?thesis
    unfolding c17 snd_conv fst_conv c19 printed_17 printed_19
    using cached_after_store[of path "''train''" ?fs1] by simp
qed

text \<open>A run from a file system that holds the cached token file of the training set.\<close>

theorem C5_training_set_from_cache_witness:
  "fst (cell_16 imdb_sample (Map.empty(train_tok imdb_sample \<mapsto> RegularFile))) = None
   \<and> fst (cell_19 imdb_sample
            (snd (snd (cell_17 imdb_sample
               (snd (cell_16 imdb_sample (Map.empty(train_tok imdb_sample \<mapsto> RegularFile))))))))
       = [LoadedFromCache ''train'', Preprocessed ''valid'',
          LoadedFromCache ''train'', LoadedFromCache ''valid'']"
proof -
  have completes:
    "fst (cell_16 imdb_sample (Map.empty(train_tok imdb_sample \<mapsto> RegularFile))) = None"
    by (simp add: cell_16_eq train_tok_def valid_tok_def path_div_def)
  from completes C5_training_set_from_cache[OF completes] show ?thesis
    by (intro conjI) (rule completes, elim conjE, assumption)
qed


subsection \<open>The export, cell by cell\<close>

lemma exported_00: "exported_as nb_cell_00 html_cell_00"
  by code_simp

lemma exported_01: "exported_as nb_cell_01 html_cell_01"
  by code_simp

lemma exported_02: "exported_as nb_cell_02 html_cell_02"
  by code_simp

lemma exported_03: "exported_as nb_cell_03 html_cell_03"
  by code_simp

lemma exported_04: "exported_as nb_cell_04 html_cell_04"
  by code_simp

lemma exported_05: "exported_as nb_cell_05 html_cell_05"
  by code_simp

lemma exported_06: "exported_as nb_cell_06 html_cell_06"
  by code_simp

lemma exported_07: "exported_as nb_cell_07 html_cell_07"
  by code_simp

lemma exported_08: "exported_as nb_cell_08 html_cell_08"
  by code_simp

lemma exported_09: "exported_as nb_cell_09 html_cell_09"
  by code_simp

lemma exported_10: "exported_as nb_cell_10 html_cell_10"
  by code_simp

lemma exported_11: "exported_as nb_cell_11 html_cell_11"
  by code_simp

lemma exported_12: "exported_as nb_cell_12 html_cell_12"
  by code_simp

lemma exported_13: "exported_as nb_cell_13 html_cell_13"
  by code_simp

lemma exported_14: "exported_as nb_cell_14 html_cell_14"
  by code_simp

lemma exported_15: "exported_as nb_cell_15 html_cell_15"
  by code_simp

lemma exported_16: "exported_as nb_cell_16 html_cell_16"
  by code_simp

lemma exported_17: "exported_as nb_cell_17 html_cell_17"
  by code_simp

lemma exported_18: "exported_as nb_cell_18 html_cell_18"
  by code_simp

lemma exported_19: "exported_as nb_cell_19 html_cell_19"
  by code_simp

lemma exported_20: "exported_as nb_cell_20 html_cell_20"
  by code_simp

lemma exported_21: "exported_as nb_cell_21 html_cell_21"
  by code_simp

lemma exported_22: "exported_as nb_cell_22 html_cell_22"
  by code_simp

lemma exported_23: "exported_as nb_cell_23 html_cell_23"
  by code_simp

lemma exported_24: "exported_as nb_cell_24 html_cell_24"
  by code_simp

lemma exported_25: "exported_as nb_cell_25 html_cell_25"
  by code_simp

lemma exported_26: "exported_as nb_cell_26 html_cell_26"
  by code_simp

lemma exported_27: "exported_as nb_cell_27 html_cell_27"
  by code_simp

lemma exported_28: "exported_as nb_cell_28 html_cell_28"
  by code_simp

lemma exported_29: "exported_as nb_cell_29 html_cell_29"
  by code_simp

lemma exported_30: "exported_as nb_cell_30 html_cell_30"
  by code_simp

lemma exported_31: "exported_as nb_cell_31 html_cell_31"
  by code_simp

lemma exported_32: "exported_as nb_cell_32 html_cell_32"
  by code_simp

lemma exported_33: "exported_as nb_cell_33 html_cell_33"
  by code_simp

lemma all_cells_exported: "list_all2 exported_as notebook html_page"
  unfolding notebook_def html_page_def
  by (simp add: exported_00 exported_01 exported_02 exported_03 exported_04 exported_05 exported_06
      exported_07 exported_08 exported_09 exported_10 exported_11 exported_12 exported_13
      exported_14 exported_15 exported_16 exported_17 exported_18 exported_19 exported_20
      exported_21 exported_22 exported_23 exported_24 exported_25 exported_26 exported_27
      exported_28 exported_29 exported_30 exported_31 exported_32 exported_33)

lemma hidden_cells:
  "map hide_input code_cells =
     [True, False, False, False, False, True, False, False, False, False, False, False, False,
      False]"
  unfolding code_cells_eq by code_simp

lemma cell_01_not_mirrored: "\<not> mirrors nb_cell_01 html_cell_01"
  by code_simp

text \<open>
  C1, as stated: every cell of the notebook has in the page a cell with the same
  rendered text, source and output. It fails at the second cell: the notebook's cell
  is the code \<^verbatim>\<open>from fastai.gen_doc.nbdoc import *\<close>, marked \<^verbatim>\<open>hide_input\<close>, and
  the page's cell is a code cell with no input area.
\<close>

theorem C1_counterexample:
  "notebook ! 1 = Code True [] [''from fastai.gen_doc.nbdoc import *'']
   \<and> html_page ! 1 = CodeCell None []
   \<and> \<not> mirrors (notebook ! 1) (html_page ! 1)
   \<and> \<not> list_all2 mirrors notebook html_page"
proof (intro conjI)
  show "notebook ! 1 = Code True [] [''from fastai.gen_doc.nbdoc import *'']"
    by (simp add: notebook_def nb_cell_01_def)
  show "html_page ! 1 = CodeCell None []"
    by (simp add: html_page_def html_cell_01_def)
  show "\<not> mirrors (notebook ! 1) (html_page ! 1)"
    using cell_01_not_mirrored by (simp add: notebook_def html_page_def)
  show "\<not> list_all2 mirrors notebook html_page"
    unfolding notebook_def html_page_def
    using cell_01_not_mirrored by simp
qed

text \<open>
  C1, amended. The page has one cell for each of the 34 cells of the notebook, in the
  same order and of the same kind. A text cell shows the rendered text of its markdown
  cell. A code cell has the outputs of its notebook cell and, unless the notebook
  marks the cell \<^verbatim>\<open>hide_input\<close>, its source; the two cells so marked (the first and
  the sixth code cell: the \<^verbatim>\<open>nbdoc\<close> import of cell 1 and the cache-deletion loop
  of cell 16) have no input area in the page.
\<close>

theorem C1_page_is_export_of_notebook:
  "list_all2 exported_as notebook html_page
   \<and> length html_page = length notebook
   \<and> map hide_input code_cells =
       [True, False, False, False, False, True, False, False, False, False, False, False,
        False, False]"
proof (intro conjI)
  show "list_all2 exported_as notebook html_page"
    by (rule all_cells_exported)
  show "length html_page = length notebook"
    using all_cells_exported by (simp add: list_all2_lengthD)
  show "map hide_input code_cells =
       [True, False, False, False, False, True, False, False, False, False, False, False,
        False, False]"
    by (rule hidden_cells)
qed

end
